theory Spec2Isabelle
  imports Complex_Main "HOL-Library.Word" "HOL-Library.Log_Nat"
begin

section \<open>Word Music Game: data model\<close>

text \<open>
  The game controller \<^verbatim>\<open>WordMusicGame\<close> (src/src/WordMusicGame.ts) is embedded as a
  record of its fields together with a log of the effects it has on its collaborators
  (remote session, audio graph, toast, console, timers).  Every handler is a function
  from state to state.  An \<^verbatim>\<open>async\<close> handler is split at its \<^verbatim>\<open>await\<close>: the part
  before it and the continuation after it are separate functions, and what the awaited
  call produced is an argument of the continuation.

  Numbers (\<^verbatim>\<open>weight\<close>, audio times, durations) are rationals, and the two additions
  of the scheduler are double-precision additions: the exact sum rounded to the nearest
  double, ties to even (\<open>double_add\<close> below).  \<^verbatim>\<open>Date.now()\<close> is an integer number of
  milliseconds.

  The strings the program builds from its own literals and from server messages are
  lists of 8-bit characters, read as code units below 256.  The text the user types is
  a list of UTF-16 code units, as JavaScript has it: \<^verbatim>\<open>trim\<close> removes the white space
  and line terminators of the language, and \<^verbatim>\<open>toUpperCase\<close>, the Unicode case mapping
  of the engine, is a parameter of the handler that calls it.

  Of the console only \<^verbatim>\<open>warn\<close> and \<^verbatim>\<open>error\<close> are logged, with their message;
  \<^verbatim>\<open>console.log\<close> is left out.
\<close>

datatype PlaybackState = Stopped | Playing | Loading | Paused

datatype AudioContextState = Suspended | Running | Closed

record MusicComponentData =
  promptId :: string
  color :: string
  "text" :: string
  weight :: rat

type_synonym LiveMusicGenerationConfig = "(string \<times> rat) list"

datatype error = DecodeError string

datatype effect =
    Connect
  | SessionPlay
  | SessionPause
  | SessionStop
  | SessionResetContext
  | SetWeightedPrompts "(string \<times> rat) list"
  | SetMusicGenerationConfig LiveMusicGenerationConfig
  | ToastShow string "nat option"
  | ConsoleWarn string
  | ConsoleError string
  | GainRamp rat
  | OutputNodeReplaced
  | AudioContextResume
  | SourceConnect
  | SourceStart rat
  | SetTimeout nat
  | InputSelect
  | InputAnimate
  | RequestUpdate
  | SettingsReset

record LiveMusicServerMessage =
  setupComplete :: bool
  filteredPrompt :: "(string \<times> string) option"
  audioChunks :: "string option list option"

record game =
  musicComponents :: "(string \<times> MusicComponentData) list"
  nextComponentId :: nat
  session :: bool
  audioContextState :: AudioContextState
  nextStartTime :: rat
  playbackState :: PlaybackState
  filteredComponents :: "string set"
  connectionError :: bool
  guessInput :: "16 word list"
  availableWords :: "string list"
  currentWordToGuess :: string
  currentWordIndex :: int
  gameWon :: bool
  promptsLastCall :: int
  settingsLastCall :: int
  effects :: "effect list"

definition emit :: "effect \<Rightarrow> game \<Rightarrow> game" where
  "emit e s = s\<lparr>effects := effects s @ [e]\<rparr>"

definition toast :: "string \<Rightarrow> nat option \<Rightarrow> game \<Rightarrow> game" where
  "toast msg duration = emit (ToastShow msg duration)"

definition bufferTime :: rat where
  "bufferTime = 1 / 2"

subsection \<open>The component map\<close>

text \<open>
  \<^verbatim>\<open>musicComponents\<close> is a JavaScript \<^verbatim>\<open>Map\<close>: it iterates in insertion order,
  \<^verbatim>\<open>set\<close> on a present key replaces the value in place and on an absent key appends.
\<close>

fun map_set :: "string \<Rightarrow> 'v \<Rightarrow> (string \<times> 'v) list \<Rightarrow> (string \<times> 'v) list" where
  "map_set k v [] = [(k, v)]"
| "map_set k v ((k', v') # m) = (if k' = k then (k, v) # m else (k', v') # map_set k v m)"

definition map_get :: "string \<Rightarrow> (string \<times> 'v) list \<Rightarrow> 'v option" where
  "map_get k m = map_of m k"

definition map_has :: "string \<Rightarrow> (string \<times> 'v) list \<Rightarrow> bool" where
  "map_has k m = (map_of m k \<noteq> None)"

definition map_delete :: "string \<Rightarrow> (string \<times> 'v) list \<Rightarrow> (string \<times> 'v) list" where
  "map_delete k m = filter (\<lambda>kv. fst kv \<noteq> k) m"

definition map_values :: "(string \<times> 'v) list \<Rightarrow> 'v list" where
  "map_values m = map snd m"

subsection \<open>Strings\<close>

text \<open>
  \<^verbatim>\<open>String.prototype.trim\<close> removes, at both ends, the code units that are WhiteSpace
  or LineTerminator in ECMAScript: TAB, LF, VT, FF, CR, SPACE, NO-BREAK SPACE, the other
  space separators of Unicode (U+1680, U+2000 to U+200A, U+202F, U+205F, U+3000), LINE
  and PARAGRAPH SEPARATOR (U+2028, U+2029) and U+FEFF.  All of them are single code
  units.
\<close>

definition isWhiteSpace :: "16 word \<Rightarrow> bool" where
  "isWhiteSpace u =
     (u = 0x09 \<or> u = 0x0A \<or> u = 0x0B \<or> u = 0x0C \<or> u = 0x0D \<or> u = 0x20 \<or> u = 0xA0
      \<or> u = 0x1680 \<or> (0x2000 \<le> u \<and> u \<le> 0x200A) \<or> u = 0x2028 \<or> u = 0x2029
      \<or> u = 0x202F \<or> u = 0x205F \<or> u = 0x3000 \<or> u = 0xFEFF)"

definition trim :: "16 word list \<Rightarrow> 16 word list" where
  "trim xs = rev (dropWhile isWhiteSpace (rev (dropWhile isWhiteSpace xs)))"

text \<open>A string of the program as the code units it consists of.\<close>

definition utf16 :: "string \<Rightarrow> 16 word list" where
  "utf16 cs = map of_char cs"

definition digit_char :: "nat \<Rightarrow> char" where
  "digit_char d = char_of (48 + d)"

function nat_to_string :: "nat \<Rightarrow> string" where
  "nat_to_string n =
     (if n < 10 then [digit_char n] else nat_to_string (n div 10) @ [digit_char (n mod 10)])"
  by pat_completeness auto
termination
  by (relation "measure (\<lambda>n. n)") auto

declare nat_to_string.simps [simp del]

definition component_id :: "nat \<Rightarrow> string" where
  "component_id n = ''component-'' @ nat_to_string n"

subsection \<open>Double-precision addition\<close>

text \<open>
  \<^verbatim>\<open>a + b\<close> on JavaScript numbers is the exact sum rounded to the nearest double
  (53 significant bits, least exponent -1074), ties going to the even significand.
  Sums of magnitude near 2^1024 and above, which JavaScript turns into Infinity, are
  outside this definition; audio times are far below.
\<close>

definition round_half_even :: "rat \<Rightarrow> int" where
  "round_half_even m =
     (let f = \<lfloor>m\<rfloor>; r = m - of_int f in
      if r < 1 / 2 then f else if 1 / 2 < r then f + 1 else if even f then f else f + 1)"

text \<open>For positive \<open>x\<close>, the integer \<open>e\<close> with \<open>2 powi e \<le> x < 2 powi (e + 1)\<close>.\<close>

definition binary_exponent :: "rat \<Rightarrow> int" where
  "binary_exponent x =
     (if 1 \<le> x then bitlen \<lfloor>x\<rfloor> - 1
      else let b = bitlen \<lfloor>1 / x\<rfloor> - 1 in if 1 / x = 2 powi b then - b else - b - 1)"

text \<open>
  The spacing of the doubles around \<open>x\<close>: 52 binary places below the leading bit, and
  never below the least subnormal.
\<close>

definition ulp :: "rat \<Rightarrow> rat" where
  "ulp x = 2 powi (max (binary_exponent \<bar>x\<bar> - 52) (- 1074))"

definition double_round :: "rat \<Rightarrow> rat" where
  "double_round x =
     (if x = 0 then 0 else sgn x * of_int (round_half_even (\<bar>x\<bar> / ulp x)) * ulp x)"

definition double_add :: "rat \<Rightarrow> rat \<Rightarrow> rat" where
  "double_add x y = double_round (x + y)"

section \<open>The throttle\<close>

text \<open>
  \<^verbatim>\<open>throttle(func, delay)\<close> (src/unnamed/part_002, lines 36-47) closes over
  \<^verbatim>\<open>lastCall\<close>, initially 0.  The wrapped callback acts on a state \<open>'s\<close>; the closure
  variable is the first component of the pair.  There is no timer: a call inside the
  window leaves nothing behind.
\<close>

definition throttle ::
  "('a \<Rightarrow> 's \<Rightarrow> 's) \<Rightarrow> int \<Rightarrow> int \<Rightarrow> 'a \<Rightarrow> int \<times> 's \<Rightarrow> int \<times> 's" where
  "throttle func delay now args = (\<lambda>(lastCall, s).
     let timeSinceLastCall = now - lastCall in
     if timeSinceLastCall \<ge> delay then (now, func args s) else (lastCall, s))"

text \<open>A run of invocations, each at its own \<^verbatim>\<open>Date.now()\<close> with its own arguments.\<close>

fun throttle_calls ::
  "('a \<Rightarrow> 's \<Rightarrow> 's) \<Rightarrow> int \<Rightarrow> (int \<times> 'a) list \<Rightarrow> int \<times> 's \<Rightarrow> int \<times> 's" where
  "throttle_calls func delay [] st = st"
| "throttle_calls func delay ((now, args) # cs) st =
     throttle_calls func delay cs (throttle func delay now args st)"

text \<open>A callback that records the arguments of every dispatched call.\<close>

definition record_call :: "'a \<Rightarrow> 'a list \<Rightarrow> 'a list" where
  "record_call args calls = calls @ [args]"

section \<open>Session control\<close>

definition componentsToSend :: "game \<Rightarrow> MusicComponentData list" where
  "componentsToSend s =
     filter (\<lambda>p. \<not> (promptId p \<in> filteredComponents s) \<and> weight p > 1 / 100)
       (map_values (musicComponents s))"

definition weightedPrompts :: "game \<Rightarrow> (string \<times> rat) list" where
  "weightedPrompts s = map (\<lambda>c. (text c, weight c)) (componentsToSend s)"

definition pauseAudio :: "game \<Rightarrow> game" where
  "pauseAudio s =
     (let s1 = (if session s then emit SessionPause s else s);
          s2 = s1\<lparr>playbackState := Paused\<rparr>;
          s3 = (if audioContextState s2 = Running then emit (GainRamp 0) s2 else s2);
          s4 = s3\<lparr>nextStartTime := 0\<rparr>
      in emit OutputNodeReplaced s4)"

definition loadAudio :: "game \<Rightarrow> game" where
  "loadAudio s =
     (let s1 = (if audioContextState s = Suspended then emit AudioContextResume s else s);
          s2 = (if session s1 then emit SessionPlay s1 else s1);
          s3 = s2\<lparr>playbackState := Loading\<rparr>
      in emit (GainRamp 1) s3)"

definition stopAudioAndSession :: "game \<Rightarrow> game" where
  "stopAudioAndSession s =
     (let s1 = (if session s then emit SessionStop s else s);
          s2 = s1\<lparr>playbackState := Stopped\<rparr>;
          s3 = (if audioContextState s2 = Running then emit (GainRamp 0) s2 else s2);
          s4 = s3\<lparr>nextStartTime := 0\<rparr>
      in emit OutputNodeReplaced s4)"

text \<open>
  The body of \<^verbatim>\<open>setSessionMusicComponents\<close> up to its \<^verbatim>\<open>await\<close>: the snapshot is
  taken and handed to \<^verbatim>\<open>session.setWeightedPrompts\<close>.  The \<^verbatim>\<open>catch\<close> block is the
  continuation \<open>setWeightedPrompts_rejected\<close>, run when the promise rejects with
  message \<open>msg\<close>.
\<close>

definition pushWeightedPrompts :: "unit \<Rightarrow> game \<Rightarrow> game" where
  "pushWeightedPrompts u s =
     (if \<not> session s then s else emit (SetWeightedPrompts (weightedPrompts s)) s)"

definition setWeightedPrompts_rejected :: "string \<Rightarrow> game \<Rightarrow> game" where
  "setWeightedPrompts_rejected msg s =
     (let s1 = toast (if msg = [] then ''Error updating music components.'' else msg)
                 (Some 4000) s
      in if playbackState s1 = Playing \<or> playbackState s1 = Loading then pauseAudio s1
         else s1)"

definition setSessionMusicComponents :: "int \<Rightarrow> game \<Rightarrow> game" where
  "setSessionMusicComponents now s =
     (case throttle pushWeightedPrompts 200 now () (promptsLastCall s, s) of
        (lastCall, s') \<Rightarrow> s'\<lparr>promptsLastCall := lastCall\<rparr>)"

definition pushSettings :: "LiveMusicGenerationConfig \<Rightarrow> game \<Rightarrow> game" where
  "pushSettings detail s =
     (if session s then emit (SetMusicGenerationConfig detail) s else s)"

definition updateSettings :: "int \<Rightarrow> LiveMusicGenerationConfig \<Rightarrow> game \<Rightarrow> game" where
  "updateSettings now detail s =
     (case throttle pushSettings 200 now detail (settingsLastCall s, s) of
        (lastCall, s') \<Rightarrow> s'\<lparr>settingsLastCall := lastCall\<rparr>)"

section \<open>Connection lifecycle\<close>

text \<open>
  \<^verbatim>\<open>connectToSession\<close>: whether \<^verbatim>\<open>ai.live.music.connect\<close> resolves (\<open>ok\<close>) or
  throws is decided by the environment.  \<open>session\<close> says whether \<^verbatim>\<open>this.session\<close>
  is set.
\<close>

definition connectToSession :: "bool \<Rightarrow> game \<Rightarrow> game" where
  "connectToSession ok s =
     (let s1 = emit Connect s in
      if ok then s1\<lparr>session := True, connectionError := False\<rparr>
      else (toast ''Failed to connect to music session. Retrying may be needed.'' (Some 5000)
              (emit (ConsoleError ''Failed to connect to session:'') s1))
           \<lparr>connectionError := True\<rparr>)"

definition onerror :: "string \<Rightarrow> game \<Rightarrow> game" where
  "onerror message s =
     toast (''Connection error: '' @ message @ ''. Please try again.'') (Some 5000)
       (pauseAudio ((emit (ConsoleError ''Connection error:'') s)\<lparr>connectionError := True\<rparr>))"

definition onclose :: "bool \<Rightarrow> game \<Rightarrow> game" where
  "onclose wasClean s =
     (if \<not> wasClean then
        toast ''Connection closed unexpectedly. Please check console.'' (Some 5000)
          (pauseAudio (s\<lparr>connectionError := True\<rparr>))
      else s)"

section \<open>Inbound messages\<close>

definition onmessage_filteredPrompt :: "LiveMusicServerMessage \<Rightarrow> game \<Rightarrow> game" where
  "onmessage_filteredPrompt e s =
     (case filteredPrompt e of
        None \<Rightarrow> s
      | Some (t, filteredReason) \<Rightarrow>
          (case find (\<lambda>p. text p = t) (map_values (musicComponents s)) of
             None \<Rightarrow> s
           | Some component \<Rightarrow>
               emit RequestUpdate
                 (toast ([CHR 0x22] @ t @ [CHR 0x22] @ '' was filtered: '' @ filteredReason) None
                    (s\<lparr>filteredComponents :=
                         insert (promptId component) (filteredComponents s)\<rparr>))))"

text \<open>The \<^verbatim>\<open>catch (audioError)\<close> block of the audio-chunk handler.\<close>

definition audioError :: "game \<Rightarrow> game" where
  "audioError s =
     (let s1 = toast ''Error playing audio. Check console.'' (Some 3000)
                 (emit (ConsoleError ''Error processing audio chunk:'') s)
      in if playbackState s1 = Playing \<or> playbackState s1 = Loading then pauseAudio s1
         else s1)"

text \<open>
  \<^verbatim>\<open>onmessage\<close> up to \<^verbatim>\<open>await decodeAudioData(...)\<close>.  The helpers \<^verbatim>\<open>decode\<close> and
  \<^verbatim>\<open>decodeAudioData\<close> live in \<^verbatim>\<open>./utils\<close>; \<open>dec\<close> stands for \<^verbatim>\<open>decode\<close> (base64 text
  to bytes, or an exception).  The second component of the result is the byte sequence
  whose decoding is awaited, if the handler got that far.
\<close>

definition onmessage_sync ::
  "(string \<Rightarrow> error + nat list) \<Rightarrow> LiveMusicServerMessage \<Rightarrow> game \<Rightarrow> game \<times> nat list option"
  where
  "onmessage_sync dec e s =
     (let s1 = (if setupComplete e then s\<lparr>connectionError := False\<rparr> else s);
          s2 = onmessage_filteredPrompt e s1
      in case audioChunks e of
           None \<Rightarrow> (s2, None)
         | Some chunks \<Rightarrow>
             if chunks = [] then (s2, None)
             else if playbackState s2 = Paused \<or> playbackState s2 = Stopped then (s2, None)
             else (case hd chunks of
                     None \<Rightarrow> (emit (ConsoleWarn ''Received empty audio chunk data.'') s2, None)
                   | Some audioDataString \<Rightarrow>
                       if audioDataString = [] \<or> trim (utf16 audioDataString) = [] then
                         (emit (ConsoleWarn ''Received empty audio chunk data.'') s2, None)
                       else (case dec audioDataString of
                               Inl err \<Rightarrow> (audioError s2, None)
                             | Inr decodedData \<Rightarrow>
                                 if length decodedData = 0 then
                                   (emit (ConsoleWarn ''Decoded audio data is empty.'') s2, None)
                                 else (s2, Some decodedData))))"

text \<open>
  The continuation after \<^verbatim>\<open>await decodeAudioData(...)\<close>.  \<open>r\<close> is what the awaited call
  produced: an exception or an audio buffer, of which only \<^verbatim>\<open>duration\<close> is read.
  \<open>now\<close> is \<^verbatim>\<open>audioContext.currentTime\<close>, the same at both places where the
  continuation reads it.
\<close>

definition onmessage_resume :: "error + rat \<Rightarrow> rat \<Rightarrow> game \<Rightarrow> game" where
  "onmessage_resume r now s =
     (case r of
        Inl err \<Rightarrow> audioError s
      | Inr duration \<Rightarrow>
          if duration = 0 then emit (ConsoleWarn ''Processed audio buffer has zero duration.'') s
          else
            let s1 = emit SourceConnect s;
                s2 = (if nextStartTime s1 = 0
                      then emit (SetTimeout 500)
                             (s1\<lparr>nextStartTime := double_add now bufferTime\<rparr>)
                      else s1)
            in if nextStartTime s2 < now then
                 (toast ''Audio buffer under-run. Resyncing...'' (Some 2000)
                    (emit (ConsoleWarn ''Audio under-run detected.'') s2))
                 \<lparr>playbackState := Loading, nextStartTime := 0\<rparr>
               else (emit (SourceStart (nextStartTime s2)) s2)
                    \<lparr>nextStartTime := double_add (nextStartTime s2) duration\<rparr>)"

text \<open>The handler with nothing running between the \<^verbatim>\<open>await\<close> and its continuation.\<close>

definition onmessage ::
  "(string \<Rightarrow> error + nat list) \<Rightarrow> (nat list \<Rightarrow> error + rat) \<Rightarrow> rat \<Rightarrow>
   LiveMusicServerMessage \<Rightarrow> game \<Rightarrow> game" where
  "onmessage dec decodeAudioData now e s =
     (case onmessage_sync dec e s of
        (s1, None) \<Rightarrow> s1
      | (s1, Some decodedData) \<Rightarrow> onmessage_resume (decodeAudioData decodedData) now s1)"

text \<open>The callback of the pre-roll timer set on priming.\<close>

definition prerollTimer :: "game \<Rightarrow> game" where
  "prerollTimer s = (if playbackState s = Loading then s\<lparr>playbackState := Playing\<rparr> else s)"

section \<open>The game\<close>

definition WORD_LIST_SOURCE :: "string list" where
  "WORD_LIST_SOURCE =
     [''HAPPY'', ''MELODY'', ''RHYTHM'', ''GROOVE'', ''HARMONY'', ''BEAT'', ''CHORD'',
      ''TEMPO'', ''FUNKY'', ''JAZZY'', ''SOUND'', ''MUSIC'', ''DANCE'', ''SING'', ''NOTE'',
      ''PIANO'', ''GUITAR'', ''DRUMS'', ''BASS'', ''VOICE'', ''ROCK'', ''POP'', ''BLUES'',
      ''VIBE'', ''SOUL'', ''LOOP'', ''SYNC'', ''TUNE'', ''FLOW'']"

definition COLORS :: "string list" where
  "COLORS =
     [''#9900ff'', ''#5200ff'', ''#ff25f6'', ''#2af6de'',
      ''#ffdd28'', ''#3dffab'', ''#d8ff3e'', ''#d9b2ff'',
      ''#FF6B6B'', ''#4ECDC4'', ''#45B7D1'', ''#F7B801'',
      ''#5F4B8B'', ''#E69A8D'', ''#00A8E8'', ''#007EA7'']"

text \<open>
  \<^verbatim>\<open>getUnusedRandomColor\<close>: \<open>cols\<close> is \<^verbatim>\<open>COLORS\<close> as shuffled at module load and
  \<open>rnd\<close> the random draw; \<^verbatim>\<open>Math.floor(Math.random() * n)\<close> is \<open>rnd mod n\<close>, some index
  below \<open>n\<close>.
\<close>

definition getUnusedRandomColor :: "string list \<Rightarrow> nat \<Rightarrow> string list \<Rightarrow> string" where
  "getUnusedRandomColor cols rnd usedColors =
     (let availableColors = filter (\<lambda>c. \<not> (c \<in> set usedColors)) cols in
      if length availableColors = 0 then cols ! (rnd mod length cols)
      else availableColors ! (rnd mod length availableColors))"

text \<open>
  \<^verbatim>\<open>currentWordIndex\<close> starts at -1 and is only ever incremented, so the index read
  here is never negative.
\<close>

definition fetchNextWord :: "game \<Rightarrow> game" where
  "fetchNextWord s =
     (let s1 = s\<lparr>currentWordIndex := currentWordIndex s + 1\<rparr> in
      if currentWordIndex s1 < int (length (availableWords s1)) then
        s1\<lparr>currentWordToGuess := availableWords s1 ! nat (currentWordIndex s1)\<rparr>
      else
        toast ''Congratulations! You've guessed all words!'' (Some 5000)
          (s1\<lparr>currentWordToGuess := ''YOU WON!'', gameWon := True\<rparr>))"

definition skipWord :: "game \<Rightarrow> game" where
  "skipWord s =
     fetchNextWord (toast (''Skipped: '' @ currentWordToGuess s) (Some 2000) s)"

text \<open>
  \<^verbatim>\<open>initializeGame\<close>: \<open>shuffled\<close> is the outcome of the random sort of
  \<^verbatim>\<open>WORD_LIST_SOURCE\<close>.
\<close>

definition initializeGame :: "string list \<Rightarrow> int \<Rightarrow> game \<Rightarrow> game" where
  "initializeGame shuffled now s =
     (let s1 = fetchNextWord
                 (s\<lparr>availableWords := shuffled, musicComponents := [], nextComponentId := 0,
                    currentWordIndex := - 1, gameWon := False, filteredComponents := {}\<rparr>)
      in if session s1 then setSessionMusicComponents now s1 else s1)"

text \<open>
  \<^verbatim>\<open>handleGuessSubmit\<close>.  \<open>toUpperCase\<close> is \<^verbatim>\<open>String.prototype.toUpperCase\<close>, whose
  case-mapping table is the engine's; the word to guess, a string of the program, is
  compared as the code units it consists of.
\<close>

definition handleGuessSubmit ::
  "(16 word list \<Rightarrow> 16 word list) \<Rightarrow> string list \<Rightarrow> nat \<Rightarrow> int \<Rightarrow> game \<Rightarrow> game" where
  "handleGuessSubmit toUpperCase cols rnd now s =
     (if gameWon s then toast ''Game over! Reset to play again.'' (Some 3000) s
      else
        let guess = toUpperCase (trim (guessInput s)) in
        if guess = [] then s
        else if guess = utf16 (currentWordToGuess s) then
          let s1 = toast (''Correct: '' @ currentWordToGuess s @ ''!'') (Some 2000) s;
              newComponentId = component_id (nextComponentId s1);
              s2 = s1\<lparr>nextComponentId := nextComponentId s1 + 1\<rparr>;
              usedColors = map color (map_values (musicComponents s2));
              newComponent = \<lparr>promptId = newComponentId,
                              color = getUnusedRandomColor cols rnd usedColors,
                              text = currentWordToGuess s2,
                              weight = 1 / 2\<rparr>;
              s3 = s2\<lparr>musicComponents := map_set newComponentId newComponent (musicComponents s2)\<rparr>;
              s4 = setSessionMusicComponents now s3;
              s5 = fetchNextWord s4;
              s6 = emit RequestUpdate s5
          in s6\<lparr>guessInput := []\<rparr>
        else
          (emit InputAnimate (emit InputSelect
             (toast ''Incorrect guess. Try again!'' (Some 2000) s)))
          \<lparr>guessInput := []\<rparr>)"

definition handleMusicComponentChanged :: "int \<Rightarrow> MusicComponentData \<Rightarrow> game \<Rightarrow> game" where
  "handleMusicComponentChanged now changedComponentData s =
     (case map_get (promptId changedComponentData) (musicComponents s) of
        None \<Rightarrow> emit (ConsoleError ''Music component not found for changing:'') s
      | Some component \<Rightarrow>
          let component' = component\<lparr>text := text changedComponentData,
                                      weight := weight changedComponentData\<rparr>;
              s1 = s\<lparr>musicComponents :=
                       map_set (promptId component') component' (musicComponents s)\<rparr>
          in emit RequestUpdate (setSessionMusicComponents now s1))"

definition handleMusicComponentRemoved :: "int \<Rightarrow> string \<Rightarrow> game \<Rightarrow> game" where
  "handleMusicComponentRemoved now componentIdToRemove s =
     (if map_has componentIdToRemove (musicComponents s) then
        emit RequestUpdate
          (setSessionMusicComponents now
             (s\<lparr>musicComponents := map_delete componentIdToRemove (musicComponents s),
                filteredComponents := filteredComponents s - {componentIdToRemove}\<rparr>))
      else emit (ConsoleWarn (''Attempted to remove non-existent component ID: ''
                   @ componentIdToRemove)) s)"

section \<open>Playback controls\<close>

text \<open>
  \<^verbatim>\<open>handlePlayPause\<close> up to \<^verbatim>\<open>await this.connectToSession()\<close>; the flag says whether the
  handler is now waiting for the connection.
\<close>

definition handlePlayPause_sync :: "game \<Rightarrow> game \<times> bool" where
  "handlePlayPause_sync s =
     (if playbackState s = Playing then (pauseAudio s, False)
      else if playbackState s = Paused \<or> playbackState s = Stopped then
        (if connectionError s \<or> \<not> session s
         then (toast ''Reconnecting...'' (Some 2000) s, True)
         else (loadAudio s, False))
      else
        (toast ''Playback stopped. Please try playing again.'' (Some 3000) (pauseAudio s),
         False))"

text \<open>The continuation after the connection attempt has settled.\<close>

definition handlePlayPause_resume :: "int \<Rightarrow> game \<Rightarrow> game" where
  "handlePlayPause_resume now s =
     (if \<not> connectionError s \<and> session s then loadAudio (setSessionMusicComponents now s)
      else (toast ''Failed to reconnect. Please try again.'' (Some 3000) s)
           \<lparr>playbackState := Stopped\<rparr>)"

definition handlePlayPause :: "bool \<Rightarrow> int \<Rightarrow> game \<Rightarrow> game" where
  "handlePlayPause ok now s =
     (case handlePlayPause_sync s of
        (s1, False) \<Rightarrow> s1
      | (s1, True) \<Rightarrow> handlePlayPause_resume now (connectToSession ok s1))"

definition defaultConfig :: LiveMusicGenerationConfig where
  "defaultConfig = [(''temperature'', 11 / 10), (''topK'', 40), (''guidance'', 4)]"

text \<open>
  \<^verbatim>\<open>SettingsController.resetToDefaults\<close> dispatches \<^verbatim>\<open>settings-changed\<close> with the
  default configuration, which the game handles with \<^verbatim>\<open>updateSettings\<close>.
\<close>

definition resetToDefaults :: "int \<Rightarrow> game \<Rightarrow> game" where
  "resetToDefaults now s = updateSettings now defaultConfig (emit SettingsReset s)"

text \<open>
  \<^verbatim>\<open>handleReset\<close>, with nothing running between an \<^verbatim>\<open>await\<close> and its continuation.
  \<open>ok\<close> is the outcome of the connection attempt (if one is made) and \<open>config_ok\<close>
  says whether the awaited \<^verbatim>\<open>setMusicGenerationConfig\<close> resolves; if it rejects, the
  handler ends there.
\<close>

definition handleReset :: "bool \<Rightarrow> bool \<Rightarrow> string list \<Rightarrow> int \<Rightarrow> game \<Rightarrow> game" where
  "handleReset ok config_ok shuffled now s =
     (let s1 = toast ''Resetting game and music...'' (Some 2000) s;
          s2 = (if connectionError s1 \<or> \<not> session s1 then connectToSession ok s1 else s1);
          s3 = pauseAudio s2;
          s4 = initializeGame shuffled now s3;
          s5 = resetToDefaults now s4
      in if session s5 then
           let s6 = emit (SetMusicGenerationConfig defaultConfig) (emit SessionResetContext s5)
           in if config_ok then
                (if playbackState s6 \<noteq> Stopped then emit (SetTimeout 300) s6 else s6)
              else s6
         else (if playbackState s5 \<noteq> Stopped then emit (SetTimeout 300) s5 else s5))"

text \<open>The state the constructor leaves, before the first word is fetched.\<close>

definition initial :: game where
  "initial = \<lparr>musicComponents = [], nextComponentId = 0, session = False,
     audioContextState = Suspended, nextStartTime = 0, playbackState = Stopped,
     filteredComponents = {}, connectionError = False, guessInput = [],
     availableWords = [], currentWordToGuess = [], currentWordIndex = - 1,
     gameWon = False, promptsLastCall = 0, settingsLastCall = 0, effects = []\<rparr>"

text \<open>What a handler added to the effect log: the log after it, without the log before.\<close>

definition effects_since :: "game \<Rightarrow> game \<Rightarrow> effect list" where
  "effects_since s s' = drop (length (effects s)) (effects s')"

section \<open>The game as a transition system\<close>

text \<open>
  The component a correct guess adds, as \<^verbatim>\<open>handleGuessSubmit\<close> builds it in state \<open>s\<close>.
\<close>

definition addedComponent :: "string list \<Rightarrow> nat \<Rightarrow> game \<Rightarrow> MusicComponentData" where
  "addedComponent cols rnd s =
     \<lparr>promptId = component_id (nextComponentId s),
      color = getUnusedRandomColor cols rnd (map color (map_values (musicComponents s))),
      text = currentWordToGuess s,
      weight = 1 / 2\<rparr>"

text \<open>\<^verbatim>\<open>firstUpdated\<close>, with nothing running between the \<^verbatim>\<open>await\<close> and its continuation.\<close>

definition firstUpdated :: "bool \<Rightarrow> int \<Rightarrow> game \<Rightarrow> game" where
  "firstUpdated ok now s = setSessionMusicComponents now (connectToSession ok s)"

text \<open>
  Everything that can happen to the game: the user's actions, the callbacks of the
  session, the timer, and the continuations of awaited calls.  Each event carries what
  the environment decides (the text typed, the clock, random draws, outcomes of remote
  calls, the state the browser gives the audio context); the engine's \<^verbatim>\<open>toUpperCase\<close>
  is a parameter of the whole system.  A continuation is an event of its own, so that
  other events may come between an \<^verbatim>\<open>await\<close> and it.
\<close>

datatype event =
    FirstUpdated bool int
  | GuessSubmit "16 word list" "string list" nat int
  | SkipWord
  | MusicComponentChanged int MusicComponentData
  | MusicComponentRemoved int string
  | SettingsChanged int LiveMusicGenerationConfig
  | PlayPause bool int
  | Reset bool bool "string list" int
  | ServerMessage LiveMusicServerMessage "error + nat list" "error + rat" rat
  | DecodeResumes "error + rat" rat
  | PushRejected string
  | ConnectionError string
  | ConnectionClosed bool
  | PrerollTimerFires
  | AudioContextStateChanges AudioContextState

fun step :: "(16 word list \<Rightarrow> 16 word list) \<Rightarrow> event \<Rightarrow> game \<Rightarrow> game" where
  "step toUpperCase (FirstUpdated ok now) s = firstUpdated ok now s"
| "step toUpperCase (GuessSubmit typed cols rnd now) s =
     handleGuessSubmit toUpperCase cols rnd now (s\<lparr>guessInput := typed\<rparr>)"
| "step toUpperCase SkipWord s = skipWord s"
| "step toUpperCase (MusicComponentChanged now changedComponentData) s =
     handleMusicComponentChanged now changedComponentData s"
| "step toUpperCase (MusicComponentRemoved now componentIdToRemove) s =
     handleMusicComponentRemoved now componentIdToRemove s"
| "step toUpperCase (SettingsChanged now detail) s = updateSettings now detail s"
| "step toUpperCase (PlayPause ok now) s = handlePlayPause ok now s"
| "step toUpperCase (Reset ok config_ok shuffled now) s =
     handleReset ok config_ok shuffled now s"
| "step toUpperCase (ServerMessage e decoded buffer now) s =
     onmessage (\<lambda>audioDataString. decoded) (\<lambda>decodedData. buffer) now e s"
| "step toUpperCase (DecodeResumes buffer now) s = onmessage_resume buffer now s"
| "step toUpperCase (PushRejected msg) s = setWeightedPrompts_rejected msg s"
| "step toUpperCase (ConnectionError message) s = onerror message s"
| "step toUpperCase (ConnectionClosed wasClean) s = onclose wasClean s"
| "step toUpperCase PrerollTimerFires s = prerollTimer s"
| "step toUpperCase (AudioContextStateChanges st) s = s\<lparr>audioContextState := st\<rparr>"

definition run :: "(16 word list \<Rightarrow> 16 word list) \<Rightarrow> event list \<Rightarrow> game \<Rightarrow> game" where
  "run toUpperCase evs s = fold (step toUpperCase) evs s"

text \<open>The state the constructor leaves: \<^verbatim>\<open>initializeGame\<close> on the fresh fields.\<close>

definition constructed :: "string list \<Rightarrow> game" where
  "constructed shuffled = initializeGame shuffled 0 initial"


text \<open>
  Every entry of the component map is stored under its own \<^verbatim>\<open>promptId\<close>, and that
  identifier was issued from the counter: it is \<^verbatim>\<open>component-n\<close> for some \<open>n\<close> below
  \<^verbatim>\<open>nextComponentId\<close>.
\<close>

definition ids_issued :: "game \<Rightarrow> bool" where
  "ids_issued s =
     (\<forall>kc \<in> set (musicComponents s).
        promptId (snd kc) = fst kc \<and> (\<exists>n < nextComponentId s. fst kc = component_id n))"

fun is_reset :: "event \<Rightarrow> bool" where
  "is_reset (Reset ok config_ok shuffled now) = True"
| "is_reset e = False"

text \<open>
  The guess that \<^verbatim>\<open>handleGuessSubmit\<close> accepts: game not won, input not empty once
  trimmed and uppercased, and then equal to the word.
\<close>

definition guessed_right :: "(16 word list \<Rightarrow> 16 word list) \<Rightarrow> game \<Rightarrow> bool" where
  "guessed_right toUpperCase s =
     (\<not> gameWon s \<and> toUpperCase (trim (guessInput s)) \<noteq> []
      \<and> toUpperCase (trim (guessInput s)) = utf16 (currentWordToGuess s))"

section \<open>Example states\<close>

text \<open>A game that is playing, with a session and a running audio context.\<close>

definition playing_game :: game where
  "playing_game = initial\<lparr>session := True, audioContextState := Running,
     playbackState := Playing, nextStartTime := 3,
     availableWords := [''MUSIC'', ''BEAT''], currentWordToGuess := ''MUSIC'',
     currentWordIndex := 0, promptsLastCall := 1000, settingsLastCall := 1000\<rparr>"

text \<open>
  A server message carrying one audio chunk: the base64 text of eight zero bytes, two
  stereo frames of silence, which last 2/48000 s; \<open>two_frames\<close> is that duration as a
  double.
\<close>

definition chunk_message :: LiveMusicServerMessage where
  "chunk_message = \<lparr>setupComplete = False, filteredPrompt = None,
     audioChunks = Some [Some ''AAAAAAAAAAA='']\<rparr>"

definition two_frames :: rat where
  "two_frames = 6148914691236517 / 2 ^ 67"

text \<open>The duration of 4800 frames at 48 kHz, 0.1 s, as a double.\<close>

definition tenth_second :: rat where
  "tenth_second = 3602879701896397 / 2 ^ 55"

text \<open>
  An upper-casing function for the examples: on strings of ASCII code units it is what
  \<^verbatim>\<open>toUpperCase\<close> gives; the examples apply it to such strings only.
\<close>

definition toUpperCaseASCII :: "16 word list \<Rightarrow> 16 word list" where
  "toUpperCaseASCII xs = map (\<lambda>u. if 0x61 \<le> u \<and> u \<le> 0x7A then u - 0x20 else u) xs"

text \<open>A paused game whose connection has failed.\<close>

definition reconnecting_game :: game where
  "reconnecting_game = playing_game\<lparr>playbackState := Paused, connectionError := True,
     nextStartTime := 0\<rparr>"


definition wrong_guess_game :: game where
  "wrong_guess_game = playing_game\<lparr>guessInput := utf16 ''beat''\<rparr>"

definition blank_guess_game :: game where
  "blank_guess_game = playing_game\<lparr>guessInput := [0x20, 0xA0, 0x3000, 0x09]\<rparr>"

text \<open>The playing game at its last word, with that word typed in.\<close>

definition last_word_game :: game where
  "last_word_game = playing_game\<lparr>currentWordIndex := 1, currentWordToGuess := ''BEAT'',
     guessInput := utf16 ''beat''\<rparr>"

text \<open>
  The playing game with two components, the second too light to be sent, and the server
  message that reports the prompt "MUSIC" as filtered.
\<close>

definition two_components_game :: game where
  "two_components_game = playing_game\<lparr>musicComponents :=
     [(''component-0'', \<lparr>promptId = ''component-0'', color = ''#9900ff'',
         text = ''MUSIC'', weight = 1 / 2\<rparr>),
      (''component-1'', \<lparr>promptId = ''component-1'', color = ''#5200ff'',
         text = ''BEAT'', weight = 1 / 200\<rparr>)],
     nextComponentId := 2\<rparr>"


text \<open>A game that has been won, with blanks typed in.\<close>

definition won_blank_game :: game where
  "won_blank_game = playing_game\<lparr>currentWordIndex := 2, currentWordToGuess := ''YOU WON!'',
     gameWon := True, guessInput := [0x20, 0x20]\<rparr>"

text \<open>A playing game whose clock was primed at time 0: the next buffer is due at 0.5 s.\<close>

definition primed_game :: game where
  "primed_game = playing_game\<lparr>nextStartTime := 1 / 2\<rparr>"

section \<open>What each operation does to each field\<close>

lemma emit_sel [simp]:
  "musicComponents (emit e s) =
     musicComponents s"
  "nextComponentId (emit e s) =
     nextComponentId s"
  "session (emit e s) =
     session s"
  "audioContextState (emit e s) =
     audioContextState s"
  "nextStartTime (emit e s) =
     nextStartTime s"
  "playbackState (emit e s) =
     playbackState s"
  "filteredComponents (emit e s) =
     filteredComponents s"
  "connectionError (emit e s) =
     connectionError s"
  "guessInput (emit e s) =
     guessInput s"
  "availableWords (emit e s) =
     availableWords s"
  "currentWordToGuess (emit e s) =
     currentWordToGuess s"
  "currentWordIndex (emit e s) =
     currentWordIndex s"
  "gameWon (emit e s) =
     gameWon s"
  "promptsLastCall (emit e s) =
     promptsLastCall s"
  "settingsLastCall (emit e s) =
     settingsLastCall s"
  "effects (emit e s) =
     effects s @ [e]"
  by (simp_all add: emit_def)

lemma toast_sel [simp]:
  "musicComponents (toast msg duration s) =
     musicComponents s"
  "nextComponentId (toast msg duration s) =
     nextComponentId s"
  "session (toast msg duration s) =
     session s"
  "audioContextState (toast msg duration s) =
     audioContextState s"
  "nextStartTime (toast msg duration s) =
     nextStartTime s"
  "playbackState (toast msg duration s) =
     playbackState s"
  "filteredComponents (toast msg duration s) =
     filteredComponents s"
  "connectionError (toast msg duration s) =
     connectionError s"
  "guessInput (toast msg duration s) =
     guessInput s"
  "availableWords (toast msg duration s) =
     availableWords s"
  "currentWordToGuess (toast msg duration s) =
     currentWordToGuess s"
  "currentWordIndex (toast msg duration s) =
     currentWordIndex s"
  "gameWon (toast msg duration s) =
     gameWon s"
  "promptsLastCall (toast msg duration s) =
     promptsLastCall s"
  "settingsLastCall (toast msg duration s) =
     settingsLastCall s"
  "effects (toast msg duration s) =
     effects s @ [ToastShow msg duration]"
  by (simp_all add: toast_def)

lemma pauseAudio_sel [simp]:
  "musicComponents (pauseAudio s) =
     musicComponents s"
  "nextComponentId (pauseAudio s) =
     nextComponentId s"
  "session (pauseAudio s) =
     session s"
  "audioContextState (pauseAudio s) =
     audioContextState s"
  "nextStartTime (pauseAudio s) =
     0"
  "playbackState (pauseAudio s) =
     Paused"
  "filteredComponents (pauseAudio s) =
     filteredComponents s"
  "connectionError (pauseAudio s) =
     connectionError s"
  "guessInput (pauseAudio s) =
     guessInput s"
  "availableWords (pauseAudio s) =
     availableWords s"
  "currentWordToGuess (pauseAudio s) =
     currentWordToGuess s"
  "currentWordIndex (pauseAudio s) =
     currentWordIndex s"
  "gameWon (pauseAudio s) =
     gameWon s"
  "promptsLastCall (pauseAudio s) =
     promptsLastCall s"
  "settingsLastCall (pauseAudio s) =
     settingsLastCall s"
  "effects (pauseAudio s) =
     effects s @ (if session s then [SessionPause] else [])
     @ (if audioContextState s = Running then [GainRamp 0] else []) @ [OutputNodeReplaced]"
  by (simp_all add: pauseAudio_def Let_def)

lemma stopAudioAndSession_sel [simp]:
  "musicComponents (stopAudioAndSession s) =
     musicComponents s"
  "nextComponentId (stopAudioAndSession s) =
     nextComponentId s"
  "session (stopAudioAndSession s) =
     session s"
  "audioContextState (stopAudioAndSession s) =
     audioContextState s"
  "nextStartTime (stopAudioAndSession s) =
     0"
  "playbackState (stopAudioAndSession s) =
     Stopped"
  "filteredComponents (stopAudioAndSession s) =
     filteredComponents s"
  "connectionError (stopAudioAndSession s) =
     connectionError s"
  "guessInput (stopAudioAndSession s) =
     guessInput s"
  "availableWords (stopAudioAndSession s) =
     availableWords s"
  "currentWordToGuess (stopAudioAndSession s) =
     currentWordToGuess s"
  "currentWordIndex (stopAudioAndSession s) =
     currentWordIndex s"
  "gameWon (stopAudioAndSession s) =
     gameWon s"
  "promptsLastCall (stopAudioAndSession s) =
     promptsLastCall s"
  "settingsLastCall (stopAudioAndSession s) =
     settingsLastCall s"
  "effects (stopAudioAndSession s) =
     effects s @ (if session s then [SessionStop] else [])
     @ (if audioContextState s = Running then [GainRamp 0] else []) @ [OutputNodeReplaced]"
  by (simp_all add: stopAudioAndSession_def Let_def)

lemma loadAudio_sel [simp]:
  "musicComponents (loadAudio s) =
     musicComponents s"
  "nextComponentId (loadAudio s) =
     nextComponentId s"
  "session (loadAudio s) =
     session s"
  "audioContextState (loadAudio s) =
     audioContextState s"
  "nextStartTime (loadAudio s) =
     nextStartTime s"
  "playbackState (loadAudio s) =
     Loading"
  "filteredComponents (loadAudio s) =
     filteredComponents s"
  "connectionError (loadAudio s) =
     connectionError s"
  "guessInput (loadAudio s) =
     guessInput s"
  "availableWords (loadAudio s) =
     availableWords s"
  "currentWordToGuess (loadAudio s) =
     currentWordToGuess s"
  "currentWordIndex (loadAudio s) =
     currentWordIndex s"
  "gameWon (loadAudio s) =
     gameWon s"
  "promptsLastCall (loadAudio s) =
     promptsLastCall s"
  "settingsLastCall (loadAudio s) =
     settingsLastCall s"
  "effects (loadAudio s) =
     effects s @ (if audioContextState s = Suspended then [AudioContextResume] else [])
     @ (if session s then [SessionPlay] else []) @ [GainRamp 1]"
  by (simp_all add: loadAudio_def Let_def)

lemma setSessionMusicComponents_sel [simp]:
  "musicComponents (setSessionMusicComponents now s) =
     musicComponents s"
  "nextComponentId (setSessionMusicComponents now s) =
     nextComponentId s"
  "session (setSessionMusicComponents now s) =
     session s"
  "audioContextState (setSessionMusicComponents now s) =
     audioContextState s"
  "nextStartTime (setSessionMusicComponents now s) =
     nextStartTime s"
  "playbackState (setSessionMusicComponents now s) =
     playbackState s"
  "filteredComponents (setSessionMusicComponents now s) =
     filteredComponents s"
  "connectionError (setSessionMusicComponents now s) =
     connectionError s"
  "guessInput (setSessionMusicComponents now s) =
     guessInput s"
  "availableWords (setSessionMusicComponents now s) =
     availableWords s"
  "currentWordToGuess (setSessionMusicComponents now s) =
     currentWordToGuess s"
  "currentWordIndex (setSessionMusicComponents now s) =
     currentWordIndex s"
  "gameWon (setSessionMusicComponents now s) =
     gameWon s"
  "promptsLastCall (setSessionMusicComponents now s) =
     (if 200 \<le> now - promptsLastCall s then now else promptsLastCall s)"
  "settingsLastCall (setSessionMusicComponents now s) =
     settingsLastCall s"
  "effects (setSessionMusicComponents now s) =
     effects s @ (if 200 \<le> now - promptsLastCall s \<and> session s
     then [SetWeightedPrompts (weightedPrompts s)] else [])"
  by (simp_all add: setSessionMusicComponents_def throttle_def pushWeightedPrompts_def)

lemma updateSettings_sel [simp]:
  "musicComponents (updateSettings now detail s) =
     musicComponents s"
  "nextComponentId (updateSettings now detail s) =
     nextComponentId s"
  "session (updateSettings now detail s) =
     session s"
  "audioContextState (updateSettings now detail s) =
     audioContextState s"
  "nextStartTime (updateSettings now detail s) =
     nextStartTime s"
  "playbackState (updateSettings now detail s) =
     playbackState s"
  "filteredComponents (updateSettings now detail s) =
     filteredComponents s"
  "connectionError (updateSettings now detail s) =
     connectionError s"
  "guessInput (updateSettings now detail s) =
     guessInput s"
  "availableWords (updateSettings now detail s) =
     availableWords s"
  "currentWordToGuess (updateSettings now detail s) =
     currentWordToGuess s"
  "currentWordIndex (updateSettings now detail s) =
     currentWordIndex s"
  "gameWon (updateSettings now detail s) =
     gameWon s"
  "promptsLastCall (updateSettings now detail s) =
     promptsLastCall s"
  "settingsLastCall (updateSettings now detail s) =
     (if 200 \<le> now - settingsLastCall s then now else settingsLastCall s)"
  "effects (updateSettings now detail s) =
     effects s @ (if 200 \<le> now - settingsLastCall s \<and> session s
     then [SetMusicGenerationConfig detail] else [])"
  by (simp_all add: updateSettings_def throttle_def pushSettings_def)

lemma connectToSession_sel [simp]:
  "musicComponents (connectToSession ok s) =
     musicComponents s"
  "nextComponentId (connectToSession ok s) =
     nextComponentId s"
  "session (connectToSession ok s) =
     (ok \<or> session s)"
  "audioContextState (connectToSession ok s) =
     audioContextState s"
  "nextStartTime (connectToSession ok s) =
     nextStartTime s"
  "playbackState (connectToSession ok s) =
     playbackState s"
  "filteredComponents (connectToSession ok s) =
     filteredComponents s"
  "connectionError (connectToSession ok s) =
     (\<not> ok)"
  "guessInput (connectToSession ok s) =
     guessInput s"
  "availableWords (connectToSession ok s) =
     availableWords s"
  "currentWordToGuess (connectToSession ok s) =
     currentWordToGuess s"
  "currentWordIndex (connectToSession ok s) =
     currentWordIndex s"
  "gameWon (connectToSession ok s) =
     gameWon s"
  "promptsLastCall (connectToSession ok s) =
     promptsLastCall s"
  "settingsLastCall (connectToSession ok s) =
     settingsLastCall s"
  "effects (connectToSession ok s) =
     effects s @ Connect #
     (if ok then []
     else [ConsoleError ''Failed to connect to session:'',
     ToastShow ''Failed to connect to music session. Retrying may be needed.''
     (Some 5000)])"
  by (simp_all add: connectToSession_def Let_def)

lemma fetchNextWord_sel [simp]:
  "musicComponents (fetchNextWord s) =
     musicComponents s"
  "nextComponentId (fetchNextWord s) =
     nextComponentId s"
  "session (fetchNextWord s) =
     session s"
  "audioContextState (fetchNextWord s) =
     audioContextState s"
  "nextStartTime (fetchNextWord s) =
     nextStartTime s"
  "playbackState (fetchNextWord s) =
     playbackState s"
  "filteredComponents (fetchNextWord s) =
     filteredComponents s"
  "connectionError (fetchNextWord s) =
     connectionError s"
  "guessInput (fetchNextWord s) =
     guessInput s"
  "availableWords (fetchNextWord s) =
     availableWords s"
  "currentWordToGuess (fetchNextWord s) =
     (if currentWordIndex s + 1 < int (length (availableWords s))
     then availableWords s ! nat (currentWordIndex s + 1) else ''YOU WON!'')"
  "currentWordIndex (fetchNextWord s) =
     currentWordIndex s + 1"
  "gameWon (fetchNextWord s) =
     (\<not> currentWordIndex s + 1 < int (length (availableWords s)) \<or> gameWon s)"
  "promptsLastCall (fetchNextWord s) =
     promptsLastCall s"
  "settingsLastCall (fetchNextWord s) =
     settingsLastCall s"
  "effects (fetchNextWord s) =
     effects s @
     (if currentWordIndex s + 1 < int (length (availableWords s)) then []
     else [ToastShow ''Congratulations! You've guessed all words!'' (Some 5000)])"
  by (simp_all add: fetchNextWord_def Let_def)

lemma initializeGame_sel [simp]:
  "musicComponents (initializeGame shuffled now s) =
     []"
  "nextComponentId (initializeGame shuffled now s) =
     0"
  "session (initializeGame shuffled now s) =
     session s"
  "audioContextState (initializeGame shuffled now s) =
     audioContextState s"
  "nextStartTime (initializeGame shuffled now s) =
     nextStartTime s"
  "playbackState (initializeGame shuffled now s) =
     playbackState s"
  "filteredComponents (initializeGame shuffled now s) =
     {}"
  "connectionError (initializeGame shuffled now s) =
     connectionError s"
  "guessInput (initializeGame shuffled now s) =
     guessInput s"
  "availableWords (initializeGame shuffled now s) =
     shuffled"
  "currentWordToGuess (initializeGame shuffled now s) =
     (if shuffled = [] then ''YOU WON!'' else shuffled ! 0)"
  "currentWordIndex (initializeGame shuffled now s) =
     0"
  "gameWon (initializeGame shuffled now s) =
     (shuffled = [])"
  "promptsLastCall (initializeGame shuffled now s) =
     (if session s \<and> 200 \<le> now - promptsLastCall s then now else promptsLastCall s)"
  "settingsLastCall (initializeGame shuffled now s) =
     settingsLastCall s"
  "effects (initializeGame shuffled now s) =
     effects s @
     (if shuffled = []
     then [ToastShow ''Congratulations! You've guessed all words!'' (Some 5000)] else [])
     @ (if session s \<and> 200 \<le> now - promptsLastCall s then [SetWeightedPrompts []] else [])"
  by (simp_all add: initializeGame_def Let_def weightedPrompts_def componentsToSend_def map_values_def)

lemma resetToDefaults_sel [simp]:
  "musicComponents (resetToDefaults now s) =
     musicComponents s"
  "nextComponentId (resetToDefaults now s) =
     nextComponentId s"
  "session (resetToDefaults now s) =
     session s"
  "audioContextState (resetToDefaults now s) =
     audioContextState s"
  "nextStartTime (resetToDefaults now s) =
     nextStartTime s"
  "playbackState (resetToDefaults now s) =
     playbackState s"
  "filteredComponents (resetToDefaults now s) =
     filteredComponents s"
  "connectionError (resetToDefaults now s) =
     connectionError s"
  "guessInput (resetToDefaults now s) =
     guessInput s"
  "availableWords (resetToDefaults now s) =
     availableWords s"
  "currentWordToGuess (resetToDefaults now s) =
     currentWordToGuess s"
  "currentWordIndex (resetToDefaults now s) =
     currentWordIndex s"
  "gameWon (resetToDefaults now s) =
     gameWon s"
  "promptsLastCall (resetToDefaults now s) =
     promptsLastCall s"
  "settingsLastCall (resetToDefaults now s) =
     (if 200 \<le> now - settingsLastCall s then now else settingsLastCall s)"
  "effects (resetToDefaults now s) =
     effects s @ SettingsReset #
     (if 200 \<le> now - settingsLastCall s \<and> session s
     then [SetMusicGenerationConfig defaultConfig] else [])"
  by (simp_all add: resetToDefaults_def)

lemma audioError_sel [simp]:
  "musicComponents (audioError s) =
     musicComponents s"
  "nextComponentId (audioError s) =
     nextComponentId s"
  "session (audioError s) =
     session s"
  "audioContextState (audioError s) =
     audioContextState s"
  "nextStartTime (audioError s) =
     (if playbackState s = Playing \<or> playbackState s = Loading then 0 else nextStartTime s)"
  "playbackState (audioError s) =
     (if playbackState s = Playing \<or> playbackState s = Loading then Paused else playbackState s)"
  "filteredComponents (audioError s) =
     filteredComponents s"
  "connectionError (audioError s) =
     connectionError s"
  "guessInput (audioError s) =
     guessInput s"
  "availableWords (audioError s) =
     availableWords s"
  "currentWordToGuess (audioError s) =
     currentWordToGuess s"
  "currentWordIndex (audioError s) =
     currentWordIndex s"
  "gameWon (audioError s) =
     gameWon s"
  "promptsLastCall (audioError s) =
     promptsLastCall s"
  "settingsLastCall (audioError s) =
     settingsLastCall s"
  "effects (audioError s) =
     effects s @ [ConsoleError ''Error processing audio chunk:'',
     ToastShow ''Error playing audio. Check console.'' (Some 3000)]
     @ (if playbackState s = Playing \<or> playbackState s = Loading
     then (if session s then [SessionPause] else [])
     @ (if audioContextState s = Running then [GainRamp 0] else [])
     @ [OutputNodeReplaced]
     else [])"
  by (simp_all add: audioError_def Let_def)

lemma setWeightedPrompts_rejected_sel [simp]:
  "musicComponents (setWeightedPrompts_rejected msg s) =
     musicComponents s"
  "nextComponentId (setWeightedPrompts_rejected msg s) =
     nextComponentId s"
  "session (setWeightedPrompts_rejected msg s) =
     session s"
  "audioContextState (setWeightedPrompts_rejected msg s) =
     audioContextState s"
  "nextStartTime (setWeightedPrompts_rejected msg s) =
     (if playbackState s = Playing \<or> playbackState s = Loading then 0 else nextStartTime s)"
  "playbackState (setWeightedPrompts_rejected msg s) =
     (if playbackState s = Playing \<or> playbackState s = Loading then Paused else playbackState s)"
  "filteredComponents (setWeightedPrompts_rejected msg s) =
     filteredComponents s"
  "connectionError (setWeightedPrompts_rejected msg s) =
     connectionError s"
  "guessInput (setWeightedPrompts_rejected msg s) =
     guessInput s"
  "availableWords (setWeightedPrompts_rejected msg s) =
     availableWords s"
  "currentWordToGuess (setWeightedPrompts_rejected msg s) =
     currentWordToGuess s"
  "currentWordIndex (setWeightedPrompts_rejected msg s) =
     currentWordIndex s"
  "gameWon (setWeightedPrompts_rejected msg s) =
     gameWon s"
  "promptsLastCall (setWeightedPrompts_rejected msg s) =
     promptsLastCall s"
  "settingsLastCall (setWeightedPrompts_rejected msg s) =
     settingsLastCall s"
  "effects (setWeightedPrompts_rejected msg s) =
     effects s @ [ToastShow (if msg = [] then ''Error updating music components.'' else msg)
     (Some 4000)]
     @ (if playbackState s = Playing \<or> playbackState s = Loading
     then (if session s then [SessionPause] else [])
     @ (if audioContextState s = Running then [GainRamp 0] else [])
     @ [OutputNodeReplaced]
     else [])"
  by (simp_all add: setWeightedPrompts_rejected_def Let_def)

section \<open>The cases of a guess submission\<close>

lemma handleGuessSubmit_won:
  "gameWon s \<Longrightarrow> handleGuessSubmit toUpperCase cols rnd now s
     = toast ''Game over! Reset to play again.'' (Some 3000) s"
  by (simp add: handleGuessSubmit_def)

lemma handleGuessSubmit_empty:
  "\<not> gameWon s \<Longrightarrow> toUpperCase (trim (guessInput s)) = [] \<Longrightarrow>
     handleGuessSubmit toUpperCase cols rnd now s = s"
  by (simp add: handleGuessSubmit_def)

lemma handleGuessSubmit_incorrect:
  "\<not> gameWon s \<Longrightarrow> toUpperCase (trim (guessInput s)) \<noteq> [] \<Longrightarrow>
   toUpperCase (trim (guessInput s)) \<noteq> utf16 (currentWordToGuess s) \<Longrightarrow>
     handleGuessSubmit toUpperCase cols rnd now s
       = s\<lparr>guessInput := [],
           effects := effects s @ [ToastShow ''Incorrect guess. Try again!'' (Some 2000),
             InputSelect, InputAnimate]\<rparr>"
  by (simp add: handleGuessSubmit_def emit_def toast_def)

lemma handleGuessSubmit_correct:
  "\<not> gameWon s \<Longrightarrow> toUpperCase (trim (guessInput s)) \<noteq> [] \<Longrightarrow>
   toUpperCase (trim (guessInput s)) = utf16 (currentWordToGuess s) \<Longrightarrow>
     handleGuessSubmit toUpperCase cols rnd now s
       = (emit RequestUpdate (fetchNextWord (setSessionMusicComponents now
           ((toast (''Correct: '' @ currentWordToGuess s @ ''!'') (Some 2000) s)
            \<lparr>nextComponentId := nextComponentId s + 1,
              musicComponents := map_set (component_id (nextComponentId s))
                (addedComponent cols rnd s) (musicComponents s)\<rparr>))))
         \<lparr>guessInput := []\<rparr>"
  by (simp add: handleGuessSubmit_def Let_def addedComponent_def)

section \<open>Component identifiers\<close>







lemma fst_set_map_set: "fst ` set (map_set k v m) = insert k (fst ` set m)"
  by (induction m) (force split: if_splits)+

section \<open>What each handler does to the components, the filtered set and the game\<close>

lemma skipWord_frame:
  "musicComponents (skipWord s) = musicComponents s"
  "nextComponentId (skipWord s) = nextComponentId s"
  "filteredComponents (skipWord s) = filteredComponents s"
  "gameWon (skipWord s) = (gameWon s \<or> \<not> currentWordIndex s + 1 < int (length (availableWords s)))"
  by (auto simp add: skipWord_def)

lemma handleMusicComponentChanged_frame:
  "musicComponents (handleMusicComponentChanged now d s) =
     (case map_get (promptId d) (musicComponents s) of
        None \<Rightarrow> musicComponents s
      | Some c \<Rightarrow> map_set (promptId c) (c\<lparr>text := text d, weight := weight d\<rparr>)
                   (musicComponents s))"
  "nextComponentId (handleMusicComponentChanged now d s) = nextComponentId s"
  "filteredComponents (handleMusicComponentChanged now d s) = filteredComponents s"
  "gameWon (handleMusicComponentChanged now d s) = gameWon s"
  by (simp_all add: handleMusicComponentChanged_def Let_def split: option.splits)

lemma handleMusicComponentRemoved_frame:
  "musicComponents (handleMusicComponentRemoved now k s) =
     (if map_has k (musicComponents s) then map_delete k (musicComponents s)
      else musicComponents s)"
  "nextComponentId (handleMusicComponentRemoved now k s) = nextComponentId s"
  "filteredComponents (handleMusicComponentRemoved now k s) =
     (if map_has k (musicComponents s) then filteredComponents s - {k}
      else filteredComponents s)"
  "gameWon (handleMusicComponentRemoved now k s) = gameWon s"
  by (simp_all add: handleMusicComponentRemoved_def)

lemma handleReset_frame:
  "musicComponents (handleReset ok config_ok shuffled now s) = []"
  "nextComponentId (handleReset ok config_ok shuffled now s) = 0"
  "filteredComponents (handleReset ok config_ok shuffled now s) = {}"
  by (simp_all add: handleReset_def Let_def)

lemma onmessage_filteredPrompt_frame:
  "musicComponents (onmessage_filteredPrompt e s) = musicComponents s"
  "nextComponentId (onmessage_filteredPrompt e s) = nextComponentId s"
  "gameWon (onmessage_filteredPrompt e s) = gameWon s"
  "playbackState (onmessage_filteredPrompt e s) = playbackState s"
  "session (onmessage_filteredPrompt e s) = session s"
  "nextStartTime (onmessage_filteredPrompt e s) = nextStartTime s"
  "audioContextState (onmessage_filteredPrompt e s) = audioContextState s"
  by (simp_all add: onmessage_filteredPrompt_def split: option.splits prod.splits)

lemma onmessage_filteredPrompt_filtered:
  "filteredComponents (onmessage_filteredPrompt e s) =
     (case filteredPrompt e of
        None \<Rightarrow> filteredComponents s
      | Some (t, filteredReason) \<Rightarrow>
          (case find (\<lambda>p. text p = t) (map_values (musicComponents s)) of
             None \<Rightarrow> filteredComponents s
           | Some component \<Rightarrow> insert (promptId component) (filteredComponents s)))"
  by (simp add: onmessage_filteredPrompt_def split: option.splits prod.splits)

lemma onmessage_filteredPrompt_connectionError:
  "filteredComponents (onmessage_filteredPrompt e (s\<lparr>connectionError := b\<rparr>)) =
     filteredComponents (onmessage_filteredPrompt e s)"
  by (simp add: onmessage_filteredPrompt_filtered split: option.splits prod.splits)

lemma onmessage_resume_frame:
  "musicComponents (onmessage_resume r now s) = musicComponents s"
  "nextComponentId (onmessage_resume r now s) = nextComponentId s"
  "filteredComponents (onmessage_resume r now s) = filteredComponents s"
  "gameWon (onmessage_resume r now s) = gameWon s"
  by (simp_all add: onmessage_resume_def Let_def split: sum.splits)

lemma small_frames:
  "musicComponents (firstUpdated ok now s) = musicComponents s"
  "nextComponentId (firstUpdated ok now s) = nextComponentId s"
  "filteredComponents (firstUpdated ok now s) = filteredComponents s"
  "gameWon (firstUpdated ok now s) = gameWon s"
  "musicComponents (onerror message s) = musicComponents s"
  "nextComponentId (onerror message s) = nextComponentId s"
  "filteredComponents (onerror message s) = filteredComponents s"
  "gameWon (onerror message s) = gameWon s"
  "musicComponents (onclose wasClean s) = musicComponents s"
  "nextComponentId (onclose wasClean s) = nextComponentId s"
  "filteredComponents (onclose wasClean s) = filteredComponents s"
  "gameWon (onclose wasClean s) = gameWon s"
  "musicComponents (prerollTimer s) = musicComponents s"
  "nextComponentId (prerollTimer s) = nextComponentId s"
  "filteredComponents (prerollTimer s) = filteredComponents s"
  "gameWon (prerollTimer s) = gameWon s"
  by (simp_all add: firstUpdated_def onerror_def onclose_def prerollTimer_def)


lemma handlePlayPause_frame:
  "musicComponents (handlePlayPause ok now s) = musicComponents s"
  "nextComponentId (handlePlayPause ok now s) = nextComponentId s"
  "filteredComponents (handlePlayPause ok now s) = filteredComponents s"
  "gameWon (handlePlayPause ok now s) = gameWon s"
  by (simp_all add: handlePlayPause_def handlePlayPause_sync_def handlePlayPause_resume_def)

lemma onmessage_sync_frame:
  "musicComponents (fst (onmessage_sync dec e s)) = musicComponents s"
  "nextComponentId (fst (onmessage_sync dec e s)) = nextComponentId s"
  "filteredComponents (fst (onmessage_sync dec e s)) =
     filteredComponents (onmessage_filteredPrompt e s)"
  "gameWon (fst (onmessage_sync dec e s)) = gameWon s"
  by (simp_all add: onmessage_sync_def Let_def onmessage_filteredPrompt_frame
      onmessage_filteredPrompt_connectionError split: sum.splits option.splits)

lemma onmessage_unfold:
  "onmessage dec dad now e s =
     (case snd (onmessage_sync dec e s) of
        None \<Rightarrow> fst (onmessage_sync dec e s)
      | Some decodedData \<Rightarrow>
          onmessage_resume (dad decodedData) now (fst (onmessage_sync dec e s)))"
  by (cases "onmessage_sync dec e s") (simp add: onmessage_def split: option.splits)

lemma onmessage_frame:
  "musicComponents (onmessage dec dad now e s) = musicComponents s"
  "nextComponentId (onmessage dec dad now e s) = nextComponentId s"
  "filteredComponents (onmessage dec dad now e s) =
     filteredComponents (onmessage_filteredPrompt e s)"
  "gameWon (onmessage dec dad now e s) = gameWon s"
  by (cases "snd (onmessage_sync dec e s)";
      simp add: onmessage_unfold onmessage_sync_frame onmessage_resume_frame)+

lemma handleGuessSubmit_frame:
  "musicComponents (handleGuessSubmit toUpperCase cols rnd now s) =
     (if guessed_right toUpperCase s
      then map_set (component_id (nextComponentId s)) (addedComponent cols rnd s) (musicComponents s)
      else musicComponents s)"
  "nextComponentId (handleGuessSubmit toUpperCase cols rnd now s) =
     (if guessed_right toUpperCase s then nextComponentId s + 1 else nextComponentId s)"
  "filteredComponents (handleGuessSubmit toUpperCase cols rnd now s) = filteredComponents s"
  "gameWon (handleGuessSubmit toUpperCase cols rnd now s) =
     (gameWon s \<or> guessed_right toUpperCase s
        \<and> \<not> currentWordIndex s + 1 < int (length (availableWords s)))"
  "currentWordIndex (handleGuessSubmit toUpperCase cols rnd now s) =
     (if guessed_right toUpperCase s then currentWordIndex s + 1 else currentWordIndex s)"
  "availableWords (handleGuessSubmit toUpperCase cols rnd now s) = availableWords s"
proof -
  consider (won) "gameWon s"
    | (empty) "\<not> gameWon s" "toUpperCase (trim (guessInput s)) = []"
    | (wrong) "\<not> gameWon s" "toUpperCase (trim (guessInput s)) \<noteq> []"
        "toUpperCase (trim (guessInput s)) \<noteq> utf16 (currentWordToGuess s)"
    | (right) "\<not> gameWon s" "toUpperCase (trim (guessInput s)) \<noteq> []"
        "toUpperCase (trim (guessInput s)) = utf16 (currentWordToGuess s)"
    by blast
  then have "
     musicComponents (handleGuessSubmit toUpperCase cols rnd now s) =
     (if guessed_right toUpperCase s
      then map_set (component_id (nextComponentId s)) (addedComponent cols rnd s) (musicComponents s)
      else musicComponents s)
   \<and> nextComponentId (handleGuessSubmit toUpperCase cols rnd now s) =
     (if guessed_right toUpperCase s then nextComponentId s + 1 else nextComponentId s)
   \<and> filteredComponents (handleGuessSubmit toUpperCase cols rnd now s) = filteredComponents s
   \<and> gameWon (handleGuessSubmit toUpperCase cols rnd now s) =
     (gameWon s \<or> guessed_right toUpperCase s
        \<and> \<not> currentWordIndex s + 1 < int (length (availableWords s)))
   \<and> currentWordIndex (handleGuessSubmit toUpperCase cols rnd now s) =
     (if guessed_right toUpperCase s then currentWordIndex s + 1 else currentWordIndex s)
   \<and> availableWords (handleGuessSubmit toUpperCase cols rnd now s) = availableWords s"
  proof cases
    case won
    then show ?thesis by (simp add: handleGuessSubmit_won guessed_right_def)
  next
    case empty
    then show ?thesis by (simp add: handleGuessSubmit_empty guessed_right_def)
  next
    case wrong
    then show ?thesis by (simp add: handleGuessSubmit_incorrect guessed_right_def)
  next
    case right
    then show ?thesis by (simp add: handleGuessSubmit_correct guessed_right_def)
  qed
  then show
    "musicComponents (handleGuessSubmit toUpperCase cols rnd now s) =
     (if guessed_right toUpperCase s
      then map_set (component_id (nextComponentId s)) (addedComponent cols rnd s) (musicComponents s)
      else musicComponents s)"
    "nextComponentId (handleGuessSubmit toUpperCase cols rnd now s) =
     (if guessed_right toUpperCase s then nextComponentId s + 1 else nextComponentId s)"
    "filteredComponents (handleGuessSubmit toUpperCase cols rnd now s) = filteredComponents s"
    "gameWon (handleGuessSubmit toUpperCase cols rnd now s) =
     (gameWon s \<or> guessed_right toUpperCase s
        \<and> \<not> currentWordIndex s + 1 < int (length (availableWords s)))"
    "currentWordIndex (handleGuessSubmit toUpperCase cols rnd now s) =
     (if guessed_right toUpperCase s then currentWordIndex s + 1 else currentWordIndex s)"
    "availableWords (handleGuessSubmit toUpperCase cols rnd now s) = availableWords s"
    by blast+
qed


section \<open>Invariants of the transition system\<close>

lemma set_map_set: "set (map_set k v m) \<subseteq> insert (k, v) (set m)"
  by (induction m) (auto split: if_splits)




lemma step_gameWon_kept:
  assumes "gameWon s" and "\<not> is_reset ev"
  shows "gameWon (step toUpperCase ev s)"
  using assms
  by (cases ev)
    (simp_all add: handleGuessSubmit_frame skipWord_frame handleMusicComponentChanged_frame
      handleMusicComponentRemoved_frame handlePlayPause_frame onmessage_frame
      onmessage_resume_frame small_frames)

lemma run_gameWon_kept:
  assumes "gameWon s" and "\<forall>ev \<in> set evs. \<not> is_reset ev"
  shows "gameWon (run toUpperCase evs s)"
  using assms unfolding run_def
  by (induction evs arbitrary: s) (simp_all add: step_gameWon_kept)

lemma ids_issued_cong:
  assumes "ids_issued s" and "set (musicComponents s') \<subseteq> set (musicComponents s)"
    and "nextComponentId s \<le> nextComponentId s'"
  shows "ids_issued s'"
  using assms unfolding ids_issued_def by (meson less_le_trans subsetD)

lemma handleGuessSubmit_ids_issued:
  assumes "ids_issued s"
  shows "ids_issued (handleGuessSubmit toUpperCase cols rnd now s)"
proof (cases "guessed_right toUpperCase s")
  case False
  then show ?thesis
    by (intro ids_issued_cong [OF assms]) (simp_all add: handleGuessSubmit_frame)
next
  case True
  show ?thesis
    unfolding ids_issued_def
  proof
    fix kc assume "kc \<in> set (musicComponents (handleGuessSubmit toUpperCase cols rnd now s))"
    then have "kc = (component_id (nextComponentId s), addedComponent cols rnd s)
        \<or> kc \<in> set (musicComponents s)"
      using True set_map_set [of "component_id (nextComponentId s)" "addedComponent cols rnd s"
          "musicComponents s"]
      by (auto simp add: handleGuessSubmit_frame)
    then show "promptId (snd kc) = fst kc
        \<and> (\<exists>n<nextComponentId (handleGuessSubmit toUpperCase cols rnd now s). fst kc = component_id n)"
    proof
      assume "kc = (component_id (nextComponentId s), addedComponent cols rnd s)"
      then show ?thesis
        using True by (auto simp add: handleGuessSubmit_frame addedComponent_def)
    next
      assume "kc \<in> set (musicComponents s)"
      with assms show ?thesis
        unfolding ids_issued_def using True
        by (auto simp add: handleGuessSubmit_frame intro: less_SucI)
    qed
  qed
qed

lemma handleMusicComponentChanged_ids_issued:
  assumes "ids_issued s"
  shows "ids_issued (handleMusicComponentChanged now d s)"
proof (cases "map_get (promptId d) (musicComponents s)")
  case None
  then show ?thesis
    by (intro ids_issued_cong [OF assms]) (simp_all add: handleMusicComponentChanged_frame)
next
  case (Some c)
  then have mem: "(promptId d, c) \<in> set (musicComponents s)"
    by (simp add: map_get_def map_of_SomeD)
  with assms have pc: "promptId c = promptId d"
    and iss: "\<exists>n < nextComponentId s. promptId d = component_id n"
    unfolding ids_issued_def by force+
  show ?thesis
    unfolding ids_issued_def
  proof
    fix kc assume "kc \<in> set (musicComponents (handleMusicComponentChanged now d s))"
    then have "kc = (promptId c, c\<lparr>text := text d, weight := weight d\<rparr>)
        \<or> kc \<in> set (musicComponents s)"
      using Some set_map_set [of "promptId c" "c\<lparr>text := text d, weight := weight d\<rparr>"
          "musicComponents s"]
      by (auto simp add: handleMusicComponentChanged_frame)
    then show "promptId (snd kc) = fst kc
        \<and> (\<exists>n<nextComponentId (handleMusicComponentChanged now d s). fst kc = component_id n)"
      using assms pc iss unfolding ids_issued_def
      by (auto simp add: handleMusicComponentChanged_frame)
  qed
qed

lemma step_ids_issued:
  assumes "ids_issued s"
  shows "ids_issued (step toUpperCase ev s)"
proof (cases ev)
  case (GuessSubmit typed cols rnd now)
  have "ids_issued (s\<lparr>guessInput := typed\<rparr>)"
    using assms by (simp add: ids_issued_def)
  then show ?thesis
    by (simp add: GuessSubmit handleGuessSubmit_ids_issued)
next
  case (MusicComponentChanged now d)
  then show ?thesis by (simp add: handleMusicComponentChanged_ids_issued assms)
next
  case (Reset ok config_ok shuffled now)
  then show ?thesis by (simp add: ids_issued_def handleReset_frame)
next
  case (MusicComponentRemoved now k)
  then show ?thesis
    by (intro ids_issued_cong [OF assms])
      (auto simp add: handleMusicComponentRemoved_frame map_delete_def)
qed (intro ids_issued_cong [OF assms];
     simp add: skipWord_frame handlePlayPause_frame onmessage_frame onmessage_resume_frame
       small_frames)+

lemma run_ids_issued:
  assumes "ids_issued s"
  shows "ids_issued (run toUpperCase evs s)"
  using assms unfolding run_def
  by (induction evs arbitrary: s) (simp_all add: step_ids_issued)

lemma constructed_ids_issued: "ids_issued (constructed shuffled)"
  by (simp add: constructed_def ids_issued_def)

text \<open>Every state the game can reach from its construction has its identifiers issued.\<close>

lemma reachable_ids_issued: "ids_issued (run toUpperCase evs (constructed shuffled))"
  by (rule run_ids_issued [OF constructed_ids_issued])


section \<open>Trimming and the guess\<close>

lemma trim_surrounding:
  assumes "\<forall>c \<in> set pre. isWhiteSpace c" and "\<forall>c \<in> set post. isWhiteSpace c"
  shows "trim (pre @ w @ post) = trim w"
proof -
  have a: "dropWhile isWhiteSpace (pre @ w @ post) = dropWhile isWhiteSpace (w @ post)"
    by (rule dropWhile_append2) (use assms(1) in auto)
  show ?thesis
  proof (cases "\<forall>c \<in> set w. isWhiteSpace c")
    case True
    then have "dropWhile isWhiteSpace (w @ post) = []" "dropWhile isWhiteSpace w = []"
      using assms(2) by auto
    then show ?thesis by (simp only: trim_def a)
  next
    case False
    then have "dropWhile isWhiteSpace (w @ post) = dropWhile isWhiteSpace w @ post"
      by (auto simp add: dropWhile_append1)
    moreover have "dropWhile isWhiteSpace (rev post @ rev (dropWhile isWhiteSpace w))
        = dropWhile isWhiteSpace (rev (dropWhile isWhiteSpace w))"
      by (rule dropWhile_append2) (use assms(2) in auto)
    ultimately show ?thesis by (simp add: trim_def a)
  qed
qed

lemma weightedPrompts_cong:
  "musicComponents s = musicComponents s' \<Longrightarrow> filteredComponents s = filteredComponents s'
     \<Longrightarrow> weightedPrompts s = weightedPrompts s'"
  by (simp add: weightedPrompts_def componentsToSend_def)

lemma addedComponent_guessInput [simp]:
  "addedComponent cols rnd (s\<lparr>guessInput := a\<rparr>) = addedComponent cols rnd s"
  by (simp add: addedComponent_def)

lemma handleGuessSubmit_depends_on_guess:
  assumes "\<not> gameWon s" and "toUpperCase (trim a) \<noteq> []"
    and "toUpperCase (trim a) = toUpperCase (trim b)"
  shows "handleGuessSubmit toUpperCase cols rnd now (s\<lparr>guessInput := a\<rparr>)
       = handleGuessSubmit toUpperCase cols rnd now (s\<lparr>guessInput := b\<rparr>)"
proof (cases "toUpperCase (trim a) = utf16 (currentWordToGuess s)")
  case False
  with assms show ?thesis by (simp add: handleGuessSubmit_incorrect)
next
  case True
  from True assms show ?thesis
    by (simp add: handleGuessSubmit_correct)
      (rule game.equality; simp add: weightedPrompts_def componentsToSend_def)
qed



section \<open>Evaluations used by the examples\<close>


lemma eval_beat: "toUpperCaseASCII (trim (utf16 ''beat'')) = utf16 ''BEAT''"
  by code_simp


lemma eval_blank: "trim [0x20, 0xA0, 0x3000, 0x09] = []"
  by code_simp



lemma eval_chunk: "trim (utf16 ''AAAAAAAAAAA='') \<noteq> []"
  by code_simp

lemma eval_prime_10: "double_add 10 bufferTime = 21 / 2"
  by code_simp

lemma eval_prime_1: "double_add 1 bufferTime = 3 / 2"
  by code_simp

lemma eval_add_3_2: "double_add 3 2 = 5"
  by code_simp

lemma eval_add_3_2_halves: "double_add (3 / 2) 2 = 7 / 2"
  by code_simp

lemma eval_two_frames: "double_add (21 / 2) two_frames = 5910997967171835 / 2 ^ 49"
  by code_simp

lemma eval_tenth: "double_add (1 / 2) tenth_second = 5404319552844595 / 2 ^ 53"
  by code_simp

lemma eval_tenth_exact: "1 / 2 + tenth_second = 21617278211378381 / 2 ^ 55"
  by code_simp


section \<open>Properties of double-precision rounding\<close>

lemma floor_bitlen_bounds:
  fixes y :: rat
  assumes "1 \<le> y"
  shows "2 powi (bitlen \<lfloor>y\<rfloor> - 1) \<le> y \<and> y < 2 powi bitlen \<lfloor>y\<rfloor>"
proof -
  have pos: "0 < \<lfloor>y\<rfloor>"
    using assms by linarith
  from bitlen_bounds [OF pos]
  have lo: "2 ^ nat (bitlen \<lfloor>y\<rfloor> - 1) \<le> \<lfloor>y\<rfloor>" and hi: "\<lfloor>y\<rfloor> < 2 ^ nat (bitlen \<lfloor>y\<rfloor>)"
    by simp_all
  have bl: "0 < bitlen \<lfloor>y\<rfloor>"
  proof (rule ccontr)
    assume "\<not> 0 < bitlen \<lfloor>y\<rfloor>"
    then have "nat (bitlen \<lfloor>y\<rfloor>) = 0" by simp
    with hi pos show False by simp
  qed
  have "(2::rat) powi (bitlen \<lfloor>y\<rfloor> - 1) = of_int (2 ^ nat (bitlen \<lfloor>y\<rfloor> - 1))"
    using bl by (simp add: power_int_def)
  also have "\<dots> \<le> of_int \<lfloor>y\<rfloor>"
    using lo by (simp only: of_int_le_iff)
  also have "\<dots> \<le> y"
    by simp
  finally have a: "2 powi (bitlen \<lfloor>y\<rfloor> - 1) \<le> y" .
  have "\<lfloor>y\<rfloor> + 1 \<le> 2 ^ nat (bitlen \<lfloor>y\<rfloor>)"
    using hi by simp
  then have "of_int (\<lfloor>y\<rfloor> + 1) \<le> (of_int (2 ^ nat (bitlen \<lfloor>y\<rfloor>)) :: rat)"
    by (simp only: of_int_le_iff)
  moreover have "y < of_int (\<lfloor>y\<rfloor> + 1)"
    by linarith
  moreover have "(2::rat) powi bitlen \<lfloor>y\<rfloor> = of_int (2 ^ nat (bitlen \<lfloor>y\<rfloor>))"
    using bl by (simp add: power_int_def)
  ultimately have b: "y < 2 powi bitlen \<lfloor>y\<rfloor>"
    by simp
  from a b show ?thesis ..
qed

text \<open>\<open>binary_exponent\<close> is the exponent of the leading bit.\<close>

lemma binary_exponent_bounds:
  assumes "0 < x"
  shows "2 powi binary_exponent x \<le> x \<and> x < 2 powi (binary_exponent x + 1)"
proof (cases "1 \<le> x")
  case True
  with floor_bitlen_bounds [OF True] show ?thesis
    by (simp add: binary_exponent_def)
next
  case False
  define b where "b = bitlen \<lfloor>1 / x\<rfloor> - 1"
  have y: "1 \<le> 1 / x"
    using False assms by simp
  from floor_bitlen_bounds [OF y]
  have lo: "2 powi b \<le> inverse x" and hi: "inverse x < 2 powi (b + 1)"
    by (simp_all add: b_def inverse_eq_divide)
  have ix: "0 < inverse x"
    using assms by simp
  have "inverse (2 powi (b + 1)) < inverse (inverse x)"
    using hi ix by (rule less_imp_inverse_less)
  then have hi': "2 powi (- b - 1) < x"
    by (simp add: power_int_minus [symmetric] del: power_int_minus)
  have "inverse (inverse x) \<le> inverse (2 powi b)"
    using lo by (rule le_imp_inverse_le) simp
  then have lo': "x \<le> 2 powi (- b)"
    by (simp only: inverse_inverse_eq power_int_minus)
  show ?thesis
  proof (cases "inverse x = 2 powi b")
    case True
    then have "inverse (inverse x) = inverse (2 powi b)"
      by simp
    then have "x = 2 powi (- b)"
      by (simp only: inverse_inverse_eq power_int_minus)
    moreover have "(2::rat) powi (- b) < 2 powi (- b + 1)"
      by (rule power_int_strict_increasing) simp_all
    moreover have "binary_exponent x = - b"
      using False True by (simp add: binary_exponent_def b_def Let_def inverse_eq_divide)
    ultimately show ?thesis
      by simp
  next
    case neq: False
    have "x \<noteq> 2 powi (- b)"
    proof
      assume "x = 2 powi (- b)"
      then have "inverse x = inverse (2 powi (- b))" by simp
      then have "inverse x = 2 powi b"
        by (simp only: power_int_minus inverse_inverse_eq)
      with neq show False ..
    qed
    with lo' have "x < 2 powi (- b)"
      by simp
    moreover have "binary_exponent x = - b - 1"
      using False neq by (simp add: binary_exponent_def b_def Let_def inverse_eq_divide)
    ultimately show ?thesis
      using hi' by simp
  qed
qed

lemma round_half_even_error: "\<bar>of_int (round_half_even m) - m\<bar> \<le> 1 / 2"
proof -
  have "of_int \<lfloor>m\<rfloor> \<le> m" "m < of_int \<lfloor>m\<rfloor> + 1"
    by linarith+
  then show ?thesis
    by (auto simp add: round_half_even_def Let_def)
qed

lemma round_half_even_of_int: "round_half_even (of_int k) = k"
  by (simp add: round_half_even_def)

lemma ulp_pos: "0 < ulp x"
  by (simp add: ulp_def)

text \<open>Rounding moves a number by at most half the spacing of the doubles around it.\<close>

lemma double_round_error: "\<bar>double_round x - x\<bar> \<le> ulp x / 2"
proof (cases "x = 0")
  case True
  then show ?thesis
    using ulp_pos [of x] by (simp add: double_round_def)
next
  case False
  define p where "p = ulp x"
  have p: "0 < p"
    by (simp add: p_def ulp_pos)
  define r where "r = round_half_even (\<bar>x\<bar> / p)"
  have dr: "double_round x = sgn x * of_int r * p"
    using False by (simp add: double_round_def p_def r_def)
  have "x = sgn x * (\<bar>x\<bar> / p) * p"
    using p by (simp add: sgn_mult_abs)
  then have "double_round x - x = sgn x * p * (of_int r - \<bar>x\<bar> / p)"
    unfolding dr by (simp add: algebra_simps)
  then have "\<bar>double_round x - x\<bar> = p * \<bar>of_int r - \<bar>x\<bar> / p\<bar>"
    using False p by (simp add: abs_mult abs_sgn_eq)
  also have "\<dots> \<le> p * (1 / 2)"
    using p round_half_even_error [of "\<bar>x\<bar> / p"] unfolding r_def
    by (intro mult_left_mono) simp_all
  finally show ?thesis
    by (simp add: p_def)
qed

text \<open>A number that is a whole multiple of the spacing around it is left as it is.\<close>

lemma double_round_exact:
  assumes "\<bar>x\<bar> = of_int k * ulp x"
  shows "double_round x = x"
proof (cases "x = 0")
  case True
  then show ?thesis by (simp add: double_round_def)
next
  case False
  have "\<bar>x\<bar> / ulp x = of_int k"
    using assms ulp_pos [of x] by simp
  then have "double_round x = sgn x * (of_int k * ulp x)"
    using False by (simp add: double_round_def round_half_even_of_int)
  also have "\<dots> = sgn x * \<bar>x\<bar>"
    by (simp only: assms)
  finally show ?thesis
    by (simp add: sgn_mult_abs)
qed


section \<open>The throttle drops calls inside the window\<close>

lemma throttle_dispatches:
  "delay \<le> now - lastCall \<Longrightarrow> throttle func delay now args (lastCall, s) = (now, func args s)"
  by (simp add: throttle_def)

lemma throttle_drops:
  "now - lastCall < delay \<Longrightarrow> throttle func delay now args (lastCall, s) = (lastCall, s)"
  by (simp add: throttle_def)

lemma setSessionMusicComponents_first:
  assumes "200 \<le> t1 - promptsLastCall s"
  shows "setSessionMusicComponents t1 s =
           s\<lparr>promptsLastCall := t1,
             effects := effects s @ (if session s then [SetWeightedPrompts (weightedPrompts s)]
                                     else [])\<rparr>"
  using assms by (intro game.equality) simp_all

lemma setSessionMusicComponents_inside_window:
  assumes "t2 - promptsLastCall s < 200"
  shows "setSessionMusicComponents t2 s = s"
  using assms by (simp add: setSessionMusicComponents_def throttle_def)

lemma updateSettings_first:
  assumes "200 \<le> t1 - settingsLastCall s"
  shows "updateSettings t1 detail s =
           s\<lparr>settingsLastCall := t1,
             effects := effects s @ (if session s then [SetMusicGenerationConfig detail]
                                     else [])\<rparr>"
  using assms by (intro game.equality) simp_all

lemma updateSettings_inside_window:
  assumes "t2 - settingsLastCall s < 200"
  shows "updateSettings t2 detail s = s"
  using assms by (simp add: updateSettings_def throttle_def)

text \<open>
  C1 (as amended).  Two invocations of a throttled push, the first at least 200 ms
  after the last dispatched call and the second less than 200 ms after the first.  The
  wrapped body runs exactly once, at the first invocation, with the first invocation's
  arguments and on the state as it is then: for \<^verbatim>\<open>setSessionMusicComponents\<close> it makes
  one call of \<^verbatim>\<open>setWeightedPrompts\<close> with the snapshot of that state when a session
  exists and no call when there is none; for \<^verbatim>\<open>updateSettings\<close> it makes one call of
  \<^verbatim>\<open>setMusicGenerationConfig\<close> with the first event's configuration when a session
  exists and no call when there is none.  The second invocation is dropped: whatever
  changed in between (\<open>g\<close>, any change of state that leaves the closure variable as the
  first invocation set it), it returns the state as it is, with no call and nothing
  left to be flushed when the window reopens.  The same holds of \<^verbatim>\<open>throttle\<close> around
  any function.
\<close>

theorem throttle_first_call_wins:
  assumes "200 \<le> first - promptsLastCall s" and "200 \<le> first - settingsLastCall s"
    and "second - first < 200"
    and "promptsLastCall (g (setSessionMusicComponents first s)) = first"
    and "settingsLastCall (g (updateSettings first cfg s)) = first"
  shows "effects_since s (setSessionMusicComponents first s) =
           (if session s then [SetWeightedPrompts (weightedPrompts s)] else [])
       \<and> setSessionMusicComponents second (g (setSessionMusicComponents first s))
           = g (setSessionMusicComponents first s)
       \<and> effects_since s (updateSettings first cfg s) =
           (if session s then [SetMusicGenerationConfig cfg] else [])
       \<and> updateSettings second cfg' (g (updateSettings first cfg s))
           = g (updateSettings first cfg s)
       \<and> throttle_calls func 200 [(first, args), (second, args')] (promptsLastCall s, x)
           = (first, func args x)"
proof -
  have a: "effects_since s (setSessionMusicComponents first s) =
           (if session s then [SetWeightedPrompts (weightedPrompts s)] else [])"
    by (simp add: setSessionMusicComponents_first [OF assms(1)] effects_since_def)
  have b: "setSessionMusicComponents second (g (setSessionMusicComponents first s))
           = g (setSessionMusicComponents first s)"
    by (rule setSessionMusicComponents_inside_window) (simp add: assms(3,4))
  have c: "effects_since s (updateSettings first cfg s) =
           (if session s then [SetMusicGenerationConfig cfg] else [])"
    by (simp add: updateSettings_first [OF assms(2)] effects_since_def)
  have d: "updateSettings second cfg' (g (updateSettings first cfg s))
           = g (updateSettings first cfg s)"
    by (rule updateSettings_inside_window) (simp add: assms(3,5))
  have e: "throttle_calls func 200 [(first, args), (second, args')] (promptsLastCall s, x)
           = (first, func args x)"
    using assms(1,3) by (simp add: throttle_dispatches throttle_drops)
  from a b c d e show ?thesis by blast
qed

text \<open>
  The game with two components, in which the components are cleared 100 ms after a
  push: one snapshot is sent, that of the state at the first invocation.  Without a
  session nothing is sent.
\<close>

theorem throttle_first_call_wins_witness:
  "(200::int) \<le> 5000 - promptsLastCall two_components_game
   \<and> (200::int) \<le> 5000 - settingsLastCall two_components_game
   \<and> (5100::int) - 5000 < 200
   \<and> effects_since two_components_game (setSessionMusicComponents 5000 two_components_game)
       = [SetWeightedPrompts [(''MUSIC'', 1 / 2)]]
   \<and> setSessionMusicComponents 5100
        ((setSessionMusicComponents 5000 two_components_game)\<lparr>musicComponents := []\<rparr>)
       = (setSessionMusicComponents 5000 two_components_game)\<lparr>musicComponents := []\<rparr>
   \<and> effects_since (two_components_game\<lparr>session := False\<rparr>)
        (setSessionMusicComponents 5000 (two_components_game\<lparr>session := False\<rparr>)) = []
   \<and> throttle_calls record_call 200 [(5000, ''first''), (5100, ''second'')]
        (promptsLastCall two_components_game, []) = (5000, [''first''])"
proof -
  let ?s = two_components_game
  let ?n = "two_components_game\<lparr>session := False\<rparr>"
  have f: "promptsLastCall ?s = 1000" "settingsLastCall ?s = 1000" "session ?s"
    "promptsLastCall ?n = 1000" "settingsLastCall ?n = 1000" "\<not> session ?n"
    "weightedPrompts ?s = [(''MUSIC'', 1 / 2)]"
    by (simp_all add: two_components_game_def playing_game_def initial_def weightedPrompts_def
        componentsToSend_def map_values_def)
  have t: "effects_since ?s (setSessionMusicComponents 5000 ?s) =
           (if session ?s then [SetWeightedPrompts (weightedPrompts ?s)] else [])
       \<and> setSessionMusicComponents 5100
            ((setSessionMusicComponents 5000 ?s)\<lparr>musicComponents := []\<rparr>)
           = (setSessionMusicComponents 5000 ?s)\<lparr>musicComponents := []\<rparr>
       \<and> throttle_calls record_call 200 [(5000, ''first''), (5100, ''second'')]
            (promptsLastCall ?s, []) = (5000, record_call ''first'' [])"
    using throttle_first_call_wins [where s = ?s and first = 5000 and second = 5100
        and g = "\<lambda>x. x\<lparr>musicComponents := []\<rparr>" and cfg = "[]" and cfg' = "[]"
        and func = record_call and args = "''first''" and args' = "''second''" and x = "[]"]
    by (simp add: f)
  have t': "effects_since ?n (setSessionMusicComponents 5000 ?n) =
           (if session ?n then [SetWeightedPrompts (weightedPrompts ?n)] else [])"
    using throttle_first_call_wins [where s = ?n and first = 5000 and second = 5100
        and g = "\<lambda>x. x" and cfg = "[]" and cfg' = "[]"
        and func = record_call and args = "''first''" and args' = "''second''" and x = "[]"]
    by (simp add: f)
  from t t' f show ?thesis
    by (simp add: record_call_def)
qed

text \<open>
  C1 as stated fails: of two invocations 100 ms apart, the call that is dispatched
  carries the arguments of the first, not of the second.
\<close>

theorem throttle_second_call_dropped:
  "snd (throttle_calls record_call 200 [(1000, ''first''), (1100, ''second'')] (0, []))
     = [''first'']
   \<and> snd (throttle_calls record_call 200 [(1000, ''first''), (1100, ''second'')] (0, []))
     \<noteq> [''second'']"
  by (simp add: throttle_def record_call_def)

section \<open>Reset and stop\<close>

lemma handleReset_playbackState:
  "playbackState (handleReset ok config_ok shuffled now s) = Paused"
  by (simp add: handleReset_def Let_def)

lemma handleReset_nextStartTime:
  "nextStartTime (handleReset ok config_ok shuffled now s) = 0"
  by (simp add: handleReset_def Let_def)

lemma handleReset_effects:
  "\<exists>fx. effects (handleReset ok config_ok shuffled now s) = effects s @ fx
     \<and> SessionStop \<notin> set fx
     \<and> (SessionPause \<in> set fx) = (session s \<or> ok)
     \<and> (SessionResetContext \<in> set fx) = (session s \<or> ok)
     \<and> (GainRamp 0 \<in> set fx) = (audioContextState s = Running)"
  by (auto simp add: handleReset_def Let_def)

lemma handleReset_effects_since:
  "SessionStop \<notin> set (effects_since s (handleReset ok config_ok shuffled now s))
   \<and> (SessionPause \<in> set (effects_since s (handleReset ok config_ok shuffled now s)))
       = (session s \<or> ok)
   \<and> (SessionResetContext \<in> set (effects_since s (handleReset ok config_ok shuffled now s)))
       = (session s \<or> ok)
   \<and> (GainRamp 0 \<in> set (effects_since s (handleReset ok config_ok shuffled now s)))
       = (audioContextState s = Running)"
proof -
  obtain fx where fx: "effects (handleReset ok config_ok shuffled now s) = effects s @ fx"
    and "SessionStop \<notin> set fx"
    and "(SessionPause \<in> set fx) = (session s \<or> ok)"
    and "(SessionResetContext \<in> set fx) = (session s \<or> ok)"
    and "(GainRamp 0 \<in> set fx) = (audioContextState s = Running)"
    using handleReset_effects by blast
  moreover have "effects_since s (handleReset ok config_ok shuffled now s) = fx"
    by (simp add: effects_since_def fx)
  ultimately show ?thesis by simp
qed

lemma stopAudioAndSession_effects_since:
  "effects_since s (stopAudioAndSession s) =
     (if session s then [SessionStop] else [])
     @ (if audioContextState s = Running then [GainRamp 0] else []) @ [OutputNodeReplaced]"
  by (simp add: effects_since_def)

text \<open>
  C2 (as amended).  The user's reset action (\<^verbatim>\<open>handleReset\<close>, the only stop/reset
  control of the interface) goes through \<^verbatim>\<open>pauseAudio\<close>: from any playback state it
  ends in \<open>Paused\<close> with the clock reset to 0; it never issues \<^verbatim>\<open>session.stop()\<close>; it
  issues \<^verbatim>\<open>session.pause()\<close> and \<^verbatim>\<open>session.resetContext()\<close> exactly when a session
  exists after the reconnection attempt, and ramps the gain down exactly when the audio
  context is running.  The transition to \<open>Stopped\<close> with \<^verbatim>\<open>session.stop()\<close> is what
  \<^verbatim>\<open>stopAudioAndSession\<close> does, which no user action calls.
\<close>

theorem reset_pauses_and_stop_stops:
  "playbackState (handleReset ok config_ok shuffled now s) = Paused
   \<and> nextStartTime (handleReset ok config_ok shuffled now s) = 0
   \<and> SessionStop \<notin> set (effects_since s (handleReset ok config_ok shuffled now s))
   \<and> (SessionPause \<in> set (effects_since s (handleReset ok config_ok shuffled now s)))
       = (session s \<or> ok)
   \<and> (SessionResetContext \<in> set (effects_since s (handleReset ok config_ok shuffled now s)))
       = (session s \<or> ok)
   \<and> (GainRamp 0 \<in> set (effects_since s (handleReset ok config_ok shuffled now s)))
       = (audioContextState s = Running)
   \<and> playbackState (stopAudioAndSession s) = Stopped
   \<and> nextStartTime (stopAudioAndSession s) = 0
   \<and> effects_since s (stopAudioAndSession s) =
       (if session s then [SessionStop] else [])
       @ (if audioContextState s = Running then [GainRamp 0] else []) @ [OutputNodeReplaced]"
  using handleReset_effects_since [of s ok config_ok shuffled now]
  by (simp add: handleReset_playbackState handleReset_nextStartTime
      stopAudioAndSession_effects_since)

theorem reset_pauses_and_stop_stops_witness:
  "playbackState (handleReset True True [''BEAT'', ''MUSIC''] 5000 playing_game) = Paused
   \<and> SessionPause \<in> set (effects_since playing_game
         (handleReset True True [''BEAT'', ''MUSIC''] 5000 playing_game))
   \<and> effects_since playing_game (stopAudioAndSession playing_game)
       = [SessionStop, GainRamp 0, OutputNodeReplaced]"
  using reset_pauses_and_stop_stops [of True True "[''BEAT'', ''MUSIC'']" 5000 playing_game]
  by (simp add: playing_game_def initial_def)

text \<open>
  C2 as stated fails: reset while playing leaves the state \<open>Paused\<close>, not \<open>Stopped\<close>,
  and \<^verbatim>\<open>session.stop()\<close> is not among the calls it makes.
\<close>

theorem reset_does_not_stop:
  "playbackState (handleReset True True [''BEAT'', ''MUSIC''] 5000 playing_game) \<noteq> Stopped
   \<and> SessionStop \<notin> set (effects (handleReset True True [''BEAT'', ''MUSIC''] 5000 playing_game))"
proof -
  have "effects playing_game = []"
    by (simp add: playing_game_def initial_def)
  then have "effects (handleReset True True [''BEAT'', ''MUSIC''] 5000 playing_game)
      = effects_since playing_game (handleReset True True [''BEAT'', ''MUSIC''] 5000 playing_game)"
    by (simp add: effects_since_def)
  then show ?thesis
    using handleReset_effects_since [of playing_game True True "[''BEAT'', ''MUSIC'']" 5000]
    by (simp add: handleReset_playbackState)
qed

section \<open>Scheduling decoded audio\<close>

text \<open>
  The scheduling path is the continuation \<open>onmessage_resume\<close>.  A message that only
  carries an audio chunk, arriving in state \<open>Loading\<close> or \<open>Playing\<close> with data that is
  not blank and decodes to at least one byte, reaches it with the state unchanged.
\<close>

lemma onmessage_reaches_schedule:
  assumes "playbackState s = Loading \<or> playbackState s = Playing"
    and "\<not> setupComplete e" and "filteredPrompt e = None"
    and "audioChunks e = Some (Some audioDataString # chunks)"
    and "trim (utf16 audioDataString) \<noteq> []"
    and "dec audioDataString = Inr decodedData" and "decodedData \<noteq> []"
  shows "onmessage dec decodeAudioData now e s =
           onmessage_resume (decodeAudioData decodedData) now s"
proof -
  have "audioDataString \<noteq> []"
    using assms(5) by (auto simp add: trim_def utf16_def)
  with assms have "onmessage_sync dec e s = (s, Some decodedData)"
    by (auto simp add: onmessage_sync_def onmessage_filteredPrompt_def)
  then show ?thesis
    by (simp add: onmessage_def)
qed

lemma onmessage_resume_underrun:
  assumes "duration \<noteq> 0" and "nextStartTime s \<noteq> 0" and "nextStartTime s < now"
  shows "onmessage_resume (Inr duration) now s =
     s\<lparr>nextStartTime := 0, playbackState := Loading,
       effects := effects s @ [SourceConnect, ConsoleWarn ''Audio under-run detected.'',
         ToastShow ''Audio buffer under-run. Resyncing...'' (Some 2000)]\<rparr>"
  using assms by (simp add: onmessage_resume_def Let_def emit_def toast_def)

lemma onmessage_resume_schedule:
  assumes "duration \<noteq> 0"
    and "\<not> (if nextStartTime s = 0 then double_add now bufferTime else nextStartTime s) < now"
  shows "onmessage_resume (Inr duration) now s =
     s\<lparr>nextStartTime :=
         double_add (if nextStartTime s = 0 then double_add now bufferTime else nextStartTime s)
           duration,
       effects := effects s @ SourceConnect #
         (if nextStartTime s = 0 then [SetTimeout 500] else [])
         @ [SourceStart (if nextStartTime s = 0 then double_add now bufferTime
                         else nextStartTime s)]\<rparr>"
  using assms
  by (auto simp add: onmessage_resume_def Let_def emit_def toast_def)

text \<open>
  C4.  Whenever the scheduling path is reached with a buffer of non-zero duration while
  \<open>nextStartTime\<close> is primed (non-zero) and strictly behind the hardware clock, the
  handler sets \<open>nextStartTime\<close> to 0 and the state to \<open>Loading\<close>, changes nothing else,
  and what it does is: connect the source, warn on the console and show the
  "under-run" toast.  The source is never started, and the handler takes its normal
  return, not the \<^verbatim>\<open>catch\<close> path (no error toast, no pause).
\<close>

theorem underrun_resets_clock:
  assumes "duration \<noteq> 0" and "nextStartTime s \<noteq> 0" and "nextStartTime s < now"
  shows "onmessage_resume (Inr duration) now s =
           s\<lparr>nextStartTime := 0, playbackState := Loading,
             effects := effects s @ [SourceConnect, ConsoleWarn ''Audio under-run detected.'',
               ToastShow ''Audio buffer under-run. Resyncing...'' (Some 2000)]\<rparr>
       \<and> effects_since s (onmessage_resume (Inr duration) now s) =
           [SourceConnect, ConsoleWarn ''Audio under-run detected.'',
            ToastShow ''Audio buffer under-run. Resyncing...'' (Some 2000)]
       \<and> (\<forall>t. SourceStart t \<notin> set (effects_since s (onmessage_resume (Inr duration) now s)))"
  by (simp add: onmessage_resume_underrun [OF assms] effects_since_def)

theorem underrun_resets_clock_witness:
  "(2::rat) \<noteq> 0 \<and> nextStartTime playing_game \<noteq> 0 \<and> nextStartTime playing_game < 10
   \<and> nextStartTime (onmessage_resume (Inr 2) 10 playing_game) = 0
   \<and> playbackState (onmessage_resume (Inr 2) 10 playing_game) = Loading
   \<and> effects_since playing_game (onmessage_resume (Inr 2) 10 playing_game) =
       [SourceConnect, ConsoleWarn ''Audio under-run detected.'',
        ToastShow ''Audio buffer under-run. Resyncing...'' (Some 2000)]"
proof -
  have h: "(2::rat) \<noteq> 0" "nextStartTime playing_game \<noteq> 0" "nextStartTime playing_game < 10"
    by (simp_all add: playing_game_def initial_def)
  from underrun_resets_clock [OF h] h show ?thesis by (simp add: effects_since_def)
qed

text \<open>
  Buffers follow one another.  After a buffer has been
  scheduled, the next one that is scheduled without under-run, the clock still being
  primed, is started at the very value \<open>nextStartTime\<close> was left at.
\<close>

lemma back_to_back:
  assumes "d1 \<noteq> 0" and "d2 \<noteq> 0"
    and "\<not> (if nextStartTime s = 0 then double_add now1 bufferTime else nextStartTime s) < now1"
    and "nextStartTime (onmessage_resume (Inr d1) now1 s) \<noteq> 0"
    and "\<not> nextStartTime (onmessage_resume (Inr d1) now1 s) < now2"
  shows "effects_since (onmessage_resume (Inr d1) now1 s)
           (onmessage_resume (Inr d2) now2 (onmessage_resume (Inr d1) now1 s)) =
           [SourceConnect, SourceStart (nextStartTime (onmessage_resume (Inr d1) now1 s))]"
proof -
  let ?s1 = "onmessage_resume (Inr d1) now1 s"
  have no_underrun:
    "\<not> (if nextStartTime ?s1 = 0 then double_add now2 bufferTime else nextStartTime ?s1) < now2"
    using assms(4,5) by simp
  show ?thesis
    using assms(4)
    by (simp add: onmessage_resume_schedule [OF assms(2) no_underrun] effects_since_def)
qed

text \<open>
  C5 (as amended).  A decoded buffer of non-zero duration that is scheduled (the
  under-run test of the handler does not fire) is started at the prior \<open>nextStartTime\<close>,
  or, on the priming call (prior \<open>nextStartTime\<close> 0, where the pre-roll timer is also
  set), at the double-precision sum of the current time and \<open>bufferTime\<close>.  Afterwards
  \<open>nextStartTime\<close> is the double-precision sum of that start time and the buffer's
  duration: the exact sum rounded to the nearest double, which is within half the
  spacing of the doubles (\<open>ulp\<close>) of the exact sum.  The playback state is untouched.
  The next buffer of non-zero duration that is scheduled, the clock still being primed
  and not behind the hardware clock, is started at that rounded value: scheduled start
  times follow one another with no gap and no overlap up to the rounding of the sum.
\<close>

theorem schedule_is_gapless:
  assumes "duration \<noteq> 0"
    and "\<not> (if nextStartTime s = 0 then double_add now bufferTime else nextStartTime s) < now"
  shows "effects_since s (onmessage_resume (Inr duration) now s) =
           SourceConnect # (if nextStartTime s = 0 then [SetTimeout 500] else [])
           @ [SourceStart (if nextStartTime s = 0 then double_add now bufferTime
                           else nextStartTime s)]
       \<and> nextStartTime (onmessage_resume (Inr duration) now s) =
           double_round ((if nextStartTime s = 0 then double_add now bufferTime
                          else nextStartTime s) + duration)
       \<and> \<bar>nextStartTime (onmessage_resume (Inr duration) now s)
           - ((if nextStartTime s = 0 then double_add now bufferTime else nextStartTime s)
              + duration)\<bar>
           \<le> ulp ((if nextStartTime s = 0 then double_add now bufferTime
                    else nextStartTime s) + duration) / 2
       \<and> playbackState (onmessage_resume (Inr duration) now s) = playbackState s
       \<and> (\<forall>duration' now'.
             duration' \<noteq> 0 \<and> nextStartTime (onmessage_resume (Inr duration) now s) \<noteq> 0
             \<and> \<not> nextStartTime (onmessage_resume (Inr duration) now s) < now' \<longrightarrow>
             effects_since (onmessage_resume (Inr duration) now s)
               (onmessage_resume (Inr duration') now' (onmessage_resume (Inr duration) now s))
               = [SourceConnect,
                  SourceStart (nextStartTime (onmessage_resume (Inr duration) now s))])"
proof -
  let ?start = "if nextStartTime s = 0 then double_add now bufferTime else nextStartTime s"
  have eq: "nextStartTime (onmessage_resume (Inr duration) now s)
      = double_round (?start + duration)"
    by (simp add: onmessage_resume_schedule [OF assms] double_add_def)
  have "\<bar>double_round (?start + duration) - (?start + duration)\<bar>
      \<le> ulp (?start + duration) / 2"
    by (rule double_round_error)
  then have err: "\<bar>nextStartTime (onmessage_resume (Inr duration) now s)
      - (?start + duration)\<bar> \<le> ulp (?start + duration) / 2"
    by (simp only: eq)
  have fx: "effects_since s (onmessage_resume (Inr duration) now s) =
           SourceConnect # (if nextStartTime s = 0 then [SetTimeout 500] else [])
           @ [SourceStart ?start]"
    by (simp add: onmessage_resume_schedule [OF assms] effects_since_def)
  have ps: "playbackState (onmessage_resume (Inr duration) now s) = playbackState s"
    by (simp add: onmessage_resume_schedule [OF assms])
  have nxt: "effects_since (onmessage_resume (Inr duration) now s)
               (onmessage_resume (Inr duration') now' (onmessage_resume (Inr duration) now s))
               = [SourceConnect,
                  SourceStart (nextStartTime (onmessage_resume (Inr duration) now s))]"
    if "duration' \<noteq> 0" "nextStartTime (onmessage_resume (Inr duration) now s) \<noteq> 0"
      "\<not> nextStartTime (onmessage_resume (Inr duration) now s) < now'" for duration' now'
    using assms(1) that(1) assms(2) that(2,3) by (rule back_to_back)
  from fx eq err ps nxt show ?thesis
    by blast
qed

theorem schedule_is_gapless_witness:
  "(2::rat) \<noteq> 0
   \<and> \<not> (if nextStartTime playing_game = 0 then double_add 1 bufferTime
          else nextStartTime playing_game) < 1
   \<and> effects_since playing_game (onmessage_resume (Inr 2) 1 playing_game) =
       [SourceConnect, SourceStart 3]
   \<and> nextStartTime (onmessage_resume (Inr 2) 1 playing_game) = 5
   \<and> effects_since (onmessage_resume (Inr 2) 1 playing_game)
        (onmessage_resume (Inr 2) 4 (onmessage_resume (Inr 2) 1 playing_game)) =
       [SourceConnect, SourceStart 5]
   \<and> effects_since (loadAudio (pauseAudio playing_game))
        (onmessage_resume (Inr 2) 1 (loadAudio (pauseAudio playing_game))) =
       [SourceConnect, SetTimeout 500, SourceStart (3 / 2)]
   \<and> nextStartTime (onmessage_resume (Inr 2) 1 (loadAudio (pauseAudio playing_game))) = 7 / 2"
proof -
  have n: "nextStartTime playing_game = 3"
    by (simp add: playing_game_def initial_def)
  have h: "(2::rat) \<noteq> 0"
    "\<not> (if nextStartTime playing_game = 0 then double_add 1 bufferTime
         else nextStartTime playing_game) < 1"
    by (simp_all add: n)
  have h': "\<not> (if nextStartTime (loadAudio (pauseAudio playing_game)) = 0
               then double_add 1 bufferTime
               else nextStartTime (loadAudio (pauseAudio playing_game))) < 1"
    by (simp add: eval_prime_1)
  have r: "double_round (3 + 2) = 5" "double_round (3 / 2 + 2) = 7 / 2"
    using eval_add_3_2 eval_add_3_2_halves by (simp_all add: double_add_def)
  note t = schedule_is_gapless [OF h]
  from t n r have a: "effects_since playing_game (onmessage_resume (Inr 2) 1 playing_game) =
       [SourceConnect, SourceStart 3]"
    and b: "nextStartTime (onmessage_resume (Inr 2) 1 playing_game) = 5"
    by simp_all
  from t have "(2::rat) \<noteq> 0 \<and> nextStartTime (onmessage_resume (Inr 2) 1 playing_game) \<noteq> 0
      \<and> \<not> nextStartTime (onmessage_resume (Inr 2) 1 playing_game) < 4 \<longrightarrow>
      effects_since (onmessage_resume (Inr 2) 1 playing_game)
        (onmessage_resume (Inr 2) 4 (onmessage_resume (Inr 2) 1 playing_game)) =
       [SourceConnect, SourceStart (nextStartTime (onmessage_resume (Inr 2) 1 playing_game))]"
    by blast
  with b have c: "effects_since (onmessage_resume (Inr 2) 1 playing_game)
        (onmessage_resume (Inr 2) 4 (onmessage_resume (Inr 2) 1 playing_game)) =
       [SourceConnect, SourceStart 5]"
    by simp
  from schedule_is_gapless [OF h(1) h'] r
  have d: "effects_since (loadAudio (pauseAudio playing_game))
        (onmessage_resume (Inr 2) 1 (loadAudio (pauseAudio playing_game))) =
       [SourceConnect, SetTimeout 500, SourceStart (3 / 2)]"
    and e: "nextStartTime (onmessage_resume (Inr 2) 1 (loadAudio (pauseAudio playing_game)))
       = 7 / 2"
    by (simp_all add: eval_prime_1)
  from h a b c d e show ?thesis
    by simp
qed

text \<open>
  C5 as stated fails.  The clock is primed at 0.5 s and a buffer of 4800 frames (0.1 s
  as a double) is scheduled at time 0.25 s: \<open>nextStartTime\<close> becomes the double nearest to
  the sum, which is not the sum, so it has not advanced by exactly the duration.
\<close>

theorem schedule_rounds_the_sum:
  "nextStartTime primed_game = 1 / 2
   \<and> nextStartTime (onmessage_resume (Inr tenth_second) (1 / 4) primed_game)
       = 5404319552844595 / 2 ^ 53
   \<and> nextStartTime (onmessage_resume (Inr tenth_second) (1 / 4) primed_game)
       \<noteq> nextStartTime primed_game + tenth_second"
proof -
  have n: "nextStartTime primed_game = 1 / 2"
    by (simp add: primed_game_def playing_game_def initial_def)
  have d: "tenth_second \<noteq> 0"
    by (simp add: tenth_second_def)
  have u: "\<not> (if nextStartTime primed_game = 0 then double_add (1 / 4) bufferTime
              else nextStartTime primed_game) < 1 / 4"
    by (simp add: n)
  have "(5404319552844595 :: rat) / 2 ^ 53 \<noteq> 21617278211378381 / 2 ^ 55"
    by simp
  then show ?thesis
    by (simp add: onmessage_resume_schedule [OF d u] n eval_tenth eval_tenth_exact)
qed


section \<open>Audio chunks while paused or stopped\<close>

text \<open>
  A chunk that arrives while the state is \<open>Paused\<close> or \<open>Stopped\<close> is dropped before
  decoding: the handler awaits nothing and the audio branch has no effect.
\<close>

lemma onmessage_sync_idle:
  assumes "playbackState s = Paused \<or> playbackState s = Stopped"
  shows "onmessage_sync dec e s =
     (onmessage_filteredPrompt e (if setupComplete e then s\<lparr>connectionError := False\<rparr> else s),
      None)"
  using assms
  by (auto simp add: onmessage_sync_def Let_def onmessage_filteredPrompt_frame
      split: option.splits)

lemma handlePlayPause_playing:
  "playbackState s = Playing \<Longrightarrow> handlePlayPause ok now s = pauseAudio s"
  by (simp add: handlePlayPause_def handlePlayPause_sync_def)

text \<open>
  C3.  The guard is only at the entry of the handler.  A chunk arrives while the game
  is playing and its decoding is awaited; the user presses pause; the continuation then
  runs in state \<open>Paused\<close> with the clock reset, does not look at the state again, primes
  the clock, sets the pre-roll timer and starts the buffer on the fresh output node.
  The state stays \<open>Paused\<close> and \<open>nextStartTime\<close> is no longer 0.
\<close>

theorem pause_during_decode_still_schedules:
  "onmessage_sync (\<lambda>d. Inr [0, 0, 0, 0, 0, 0, 0, 0]) chunk_message playing_game
     = (playing_game, Some [0, 0, 0, 0, 0, 0, 0, 0])
   \<and> playbackState (handlePlayPause True 1000 playing_game) = Paused
   \<and> playbackState
        (onmessage_resume (Inr two_frames) 10 (handlePlayPause True 1000 playing_game))
       = Paused
   \<and> effects_since (handlePlayPause True 1000 playing_game)
        (onmessage_resume (Inr two_frames) 10 (handlePlayPause True 1000 playing_game))
       = [SourceConnect, SetTimeout 500, SourceStart (21 / 2)]
   \<and> nextStartTime
        (onmessage_resume (Inr two_frames) 10 (handlePlayPause True 1000 playing_game))
       = 5910997967171835 / 2 ^ 49"
proof -
  have p: "playbackState playing_game = Playing"
    by (simp add: playing_game_def initial_def)
  have a: "onmessage_sync (\<lambda>d. Inr [0, 0, 0, 0, 0, 0, 0, 0]) chunk_message playing_game
     = (playing_game, Some [0, 0, 0, 0, 0, 0, 0, 0])"
    by (simp add: onmessage_sync_def onmessage_filteredPrompt_def chunk_message_def p
        eval_chunk)
  have b: "handlePlayPause True 1000 playing_game = pauseAudio playing_game"
    by (rule handlePlayPause_playing [OF p])
  have c: "\<not> (if nextStartTime (pauseAudio playing_game) = 0 then double_add 10 bufferTime
              else nextStartTime (pauseAudio playing_game)) < 10"
    by (simp add: eval_prime_10)
  have d: "two_frames \<noteq> 0"
    by (simp add: two_frames_def)
  show ?thesis
    by (simp add: a b onmessage_resume_schedule [OF d c] effects_since_def eval_prime_10
        eval_two_frames)
qed

section \<open>Play after a connection error\<close>

lemma handlePlayPause_reconnect:
  assumes "playbackState s = Paused \<or> playbackState s = Stopped"
    and "connectionError s \<or> \<not> session s"
  shows "handlePlayPause_sync s = (toast ''Reconnecting...'' (Some 2000) s, True)"
    and "handlePlayPause ok now s =
      handlePlayPause_resume now (connectToSession ok (toast ''Reconnecting...'' (Some 2000) s))"
  using assms by (auto simp add: handlePlayPause_def handlePlayPause_sync_def)

lemma reconnect_failed:
  "playbackState (handlePlayPause_resume now (connectToSession False s)) = Stopped"
  "effects (handlePlayPause_resume now (connectToSession False s)) =
     effects s @ [Connect, ConsoleError ''Failed to connect to session:'',
       ToastShow ''Failed to connect to music session. Retrying may be needed.'' (Some 5000),
       ToastShow ''Failed to reconnect. Please try again.'' (Some 3000)]"
  by (simp_all add: handlePlayPause_resume_def)

lemma reconnect_succeeded:
  "playbackState (handlePlayPause_resume now (connectToSession True s)) = Loading"
  "effects (handlePlayPause_resume now (connectToSession True s)) =
     effects s @ Connect #
       (if 200 \<le> now - promptsLastCall s then [SetWeightedPrompts (weightedPrompts s)] else [])
       @ (if audioContextState s = Suspended then [AudioContextResume] else [])
       @ [SessionPlay, GainRamp 1]"
  by (simp_all add: handlePlayPause_resume_def weightedPrompts_def componentsToSend_def)

text \<open>
  C8.  Play pressed in state \<open>Paused\<close> or \<open>Stopped\<close> with \<open>connectionError\<close> set: up to
  the \<^verbatim>\<open>await\<close> the handler only shows "Reconnecting..." and then waits for the
  connection; the connection attempt is made and settles with the playback state still
  what it was.  If the attempt fails the state ends \<open>Stopped\<close> and the last thing shown is
  the "Failed to reconnect" toast; if it succeeds the state ends \<open>Loading\<close>, after the
  prompts were pushed (when the throttle lets them through) and \<^verbatim>\<open>session.play()\<close> was
  issued.  Here \<open>ok\<close> is the outcome of the attempt and nothing else runs while it is
  awaited.
\<close>

theorem play_reconnects_first:
  assumes "playbackState s = Paused \<or> playbackState s = Stopped" and "connectionError s"
  shows "handlePlayPause_sync s = (toast ''Reconnecting...'' (Some 2000) s, True)
     \<and> playbackState (connectToSession ok (fst (handlePlayPause_sync s))) = playbackState s
     \<and> Connect \<in> set (effects_since s (connectToSession ok (fst (handlePlayPause_sync s))))
     \<and> playbackState (handlePlayPause ok now s) = (if ok then Loading else Stopped)
     \<and> effects_since s (handlePlayPause ok now s) =
         (if ok then
            [ToastShow ''Reconnecting...'' (Some 2000), Connect]
            @ (if 200 \<le> now - promptsLastCall s then [SetWeightedPrompts (weightedPrompts s)]
               else [])
            @ (if audioContextState s = Suspended then [AudioContextResume] else [])
            @ [SessionPlay, GainRamp 1]
          else
            [ToastShow ''Reconnecting...'' (Some 2000), Connect,
             ConsoleError ''Failed to connect to session:'',
             ToastShow ''Failed to connect to music session. Retrying may be needed.''
               (Some 5000),
             ToastShow ''Failed to reconnect. Please try again.'' (Some 3000)])"
proof -
  have ce: "connectionError s \<or> \<not> session s" using assms(2) by simp
  note r = handlePlayPause_reconnect [OF assms(1) ce]
  show ?thesis
    by (cases ok)
      (simp_all add: r reconnect_failed reconnect_succeeded effects_since_def
        weightedPrompts_def componentsToSend_def)
qed

theorem play_reconnects_first_witness:
  "playbackState reconnecting_game = Paused \<and> connectionError reconnecting_game
   \<and> playbackState (handlePlayPause False 5000 reconnecting_game) = Stopped
   \<and> playbackState (handlePlayPause True 5000 reconnecting_game) = Loading
   \<and> effects_since reconnecting_game (handlePlayPause True 5000 reconnecting_game) =
       [ToastShow ''Reconnecting...'' (Some 2000), Connect, SetWeightedPrompts [],
        SessionPlay, GainRamp 1]"
proof -
  have h1: "playbackState reconnecting_game = Paused \<or> playbackState reconnecting_game = Stopped"
    and h2: "connectionError reconnecting_game"
    and h3: "playbackState reconnecting_game = Paused"
    by (simp_all add: reconnecting_game_def playing_game_def initial_def)
  have h4: "promptsLastCall reconnecting_game = 1000"
    "audioContextState reconnecting_game = Running"
    "weightedPrompts reconnecting_game = []"
    by (simp_all add: reconnecting_game_def playing_game_def initial_def weightedPrompts_def
        componentsToSend_def map_values_def)
  from play_reconnects_first [OF h1 h2, of False 5000]
    play_reconnects_first [OF h1 h2, of True 5000] h2 h3 h4
  show ?thesis by simp
qed

section \<open>Guess submissions\<close>



section \<open>The end of the game\<close>

text \<open>
  C9 (as amended).  When the last remaining word is guessed correctly (the current
  index is the last valid one), \<^verbatim>\<open>gameWon\<close> becomes true and \<^verbatim>\<open>currentWordIndex\<close>
  becomes equal to the number of available words, one past the last valid index.  From
  then on, whatever happens short of a reset, the game stays won, and every guess
  submission only adds the "Game over" toast: the component map, the word index, the
  filtered set and every other field are as before.
\<close>

theorem last_guess_wins_game:
  assumes "\<not> gameWon s" and "toUpperCase (trim (guessInput s)) \<noteq> []"
    and "toUpperCase (trim (guessInput s)) = utf16 (currentWordToGuess s)"
    and "currentWordIndex s + 1 = int (length (availableWords s))"
  shows "gameWon (handleGuessSubmit toUpperCase cols rnd now s)
     \<and> currentWordIndex (handleGuessSubmit toUpperCase cols rnd now s)
         = int (length (availableWords (handleGuessSubmit toUpperCase cols rnd now s)))
     \<and> (\<forall>evs. (\<forall>ev \<in> set evs. \<not> is_reset ev) \<longrightarrow>
          gameWon (run toUpperCase evs (handleGuessSubmit toUpperCase cols rnd now s))
          \<and> (\<forall>cols' rnd' now'.
                handleGuessSubmit toUpperCase cols' rnd' now'
                    (run toUpperCase evs (handleGuessSubmit toUpperCase cols rnd now s))
                  = (run toUpperCase evs (handleGuessSubmit toUpperCase cols rnd now s))
                    \<lparr>effects :=
                       effects (run toUpperCase evs
                                  (handleGuessSubmit toUpperCase cols rnd now s))
                       @ [ToastShow ''Game over! Reset to play again.'' (Some 3000)]\<rparr>))"
proof -
  have gr: "guessed_right toUpperCase s"
    using assms(1-3) by (simp add: guessed_right_def)
  have won: "gameWon (handleGuessSubmit toUpperCase cols rnd now s)"
    using gr assms(4) by (simp add: handleGuessSubmit_frame)
  have idx: "currentWordIndex (handleGuessSubmit toUpperCase cols rnd now s)
      = int (length (availableWords (handleGuessSubmit toUpperCase cols rnd now s)))"
    using gr assms(4) by (simp add: handleGuessSubmit_frame)
  have later: "gameWon (run toUpperCase evs (handleGuessSubmit toUpperCase cols rnd now s))"
    if "\<forall>ev \<in> set evs. \<not> is_reset ev" for evs
    using won that by (rule run_gameWon_kept)
  have rejected: "handleGuessSubmit toUpperCase cols' rnd' now' t
      = t\<lparr>effects := effects t @ [ToastShow ''Game over! Reset to play again.'' (Some 3000)]\<rparr>"
    if "gameWon t" for t cols' rnd' now'
    using that by (simp add: handleGuessSubmit_won toast_def emit_def)
  show ?thesis
    using won idx later rejected by blast
qed

theorem last_guess_wins_game_witness:
  "\<not> gameWon last_word_game \<and> toUpperCaseASCII (trim (guessInput last_word_game)) \<noteq> []
   \<and> toUpperCaseASCII (trim (guessInput last_word_game))
       = utf16 (currentWordToGuess last_word_game)
   \<and> currentWordIndex last_word_game + 1 = int (length (availableWords last_word_game))
   \<and> gameWon (handleGuessSubmit toUpperCaseASCII COLORS 0 5000 last_word_game)
   \<and> gameWon (run toUpperCaseASCII [SkipWord, GuessSubmit (utf16 ''music'') COLORS 0 6000]
        (handleGuessSubmit toUpperCaseASCII COLORS 0 5000 last_word_game))
   \<and> musicComponents (handleGuessSubmit toUpperCaseASCII COLORS 1 7000
        (run toUpperCaseASCII [SkipWord]
           (handleGuessSubmit toUpperCaseASCII COLORS 0 5000 last_word_game)))
      = musicComponents (run toUpperCaseASCII [SkipWord]
           (handleGuessSubmit toUpperCaseASCII COLORS 0 5000 last_word_game))"
proof -
  let ?won = "handleGuessSubmit toUpperCaseASCII COLORS 0 5000 last_word_game"
  have ne: "utf16 ''BEAT'' \<noteq> []"
    by (simp add: utf16_def)
  have h: "\<not> gameWon last_word_game" "toUpperCaseASCII (trim (guessInput last_word_game)) \<noteq> []"
    "toUpperCaseASCII (trim (guessInput last_word_game))
       = utf16 (currentWordToGuess last_word_game)"
    "currentWordIndex last_word_game + 1 = int (length (availableWords last_word_game))"
    by (simp_all add: last_word_game_def playing_game_def initial_def eval_beat ne)
  have e1: "\<forall>ev \<in> set [SkipWord, GuessSubmit (utf16 ''music'') COLORS 0 6000]. \<not> is_reset ev"
    and e2: "\<forall>ev \<in> set [SkipWord]. \<not> is_reset ev"
    by simp_all
  note t = last_guess_wins_game
      [where toUpperCase = toUpperCaseASCII, OF h, of COLORS 0 5000]
  from t have a: "gameWon ?won" by blast
  from t e1 have b: "gameWon (run toUpperCaseASCII
      [SkipWord, GuessSubmit (utf16 ''music'') COLORS 0 6000] ?won)" by blast
  from t e2 have "handleGuessSubmit toUpperCaseASCII COLORS 1 7000
        (run toUpperCaseASCII [SkipWord] ?won)
      = (run toUpperCaseASCII [SkipWord] ?won)
        \<lparr>effects := effects (run toUpperCaseASCII [SkipWord] ?won)
           @ [ToastShow ''Game over! Reset to play again.'' (Some 3000)]\<rparr>" by blast
  then have c: "musicComponents (handleGuessSubmit toUpperCaseASCII COLORS 1 7000
        (run toUpperCaseASCII [SkipWord] ?won))
      = musicComponents (run toUpperCaseASCII [SkipWord] ?won)"
    by simp
  from h a b c show ?thesis by simp
qed

text \<open>
  C9 as stated fails: with two words, guessing the second leaves the index at 2, which
  is the number of available words and does not exceed it.
\<close>

theorem index_equals_word_count:
  "currentWordIndex (handleGuessSubmit toUpperCaseASCII COLORS 0 5000 last_word_game) = 2
   \<and> length (availableWords (handleGuessSubmit toUpperCaseASCII COLORS 0 5000 last_word_game))
       = 2
   \<and> \<not> int (length (availableWords
               (handleGuessSubmit toUpperCaseASCII COLORS 0 5000 last_word_game)))
         < currentWordIndex (handleGuessSubmit toUpperCaseASCII COLORS 0 5000 last_word_game)"
proof -
  have ne: "utf16 ''BEAT'' \<noteq> []"
    by (simp add: utf16_def)
  have "guessed_right toUpperCaseASCII last_word_game"
    by (simp add: guessed_right_def last_word_game_def playing_game_def initial_def eval_beat
        ne)
  moreover have "currentWordIndex last_word_game = 1"
    "availableWords last_word_game = [''MUSIC'', ''BEAT'']"
    by (simp_all add: last_word_game_def playing_game_def initial_def)
  ultimately show ?thesis
    by (simp add: handleGuessSubmit_frame)
qed

section \<open>Normalisation of the guess\<close>

text \<open>
  C10 (as amended).  While the game is not won: a submission whose input is empty
  after trimming returns the state as it is, with no toast, the input field untouched
  and nothing else changed.  Otherwise the input, trimmed and then uppercased, is what
  is compared with \<^verbatim>\<open>currentWordToGuess\<close>: if the two are equal the guess is accepted
  (the state is that of a correct guess: toast, new component, push, next word, input
  cleared), and if they differ it is rejected (the "Incorrect guess" toast, selection
  and shake, input cleared, nothing else).  Two inputs with the same trimmed, uppercased
  form are treated alike, and white space around an input does not change its trimmed
  form.  Of \<^verbatim>\<open>toUpperCase\<close> only this is used: it maps the empty string to the empty
  string.
\<close>

theorem guess_is_trimmed_and_uppercased:
  assumes "\<not> gameWon s" and "toUpperCase [] = []"
  shows "(trim (guessInput s) = [] \<longrightarrow> handleGuessSubmit toUpperCase cols rnd now s = s)
     \<and> (toUpperCase (trim (guessInput s)) \<noteq> [] \<longrightarrow>
          handleGuessSubmit toUpperCase cols rnd now s =
            (if toUpperCase (trim (guessInput s)) = utf16 (currentWordToGuess s)
             then (emit RequestUpdate (fetchNextWord (setSessionMusicComponents now
                     ((toast (''Correct: '' @ currentWordToGuess s @ ''!'') (Some 2000) s)
                      \<lparr>nextComponentId := nextComponentId s + 1,
                        musicComponents := map_set (component_id (nextComponentId s))
                          (addedComponent cols rnd s) (musicComponents s)\<rparr>))))
                  \<lparr>guessInput := []\<rparr>
             else s\<lparr>guessInput := [],
                    effects := effects s @
                      [ToastShow ''Incorrect guess. Try again!'' (Some 2000),
                       InputSelect, InputAnimate]\<rparr>))
     \<and> (\<forall>a b. toUpperCase (trim a) \<noteq> [] \<and> toUpperCase (trim a) = toUpperCase (trim b) \<longrightarrow>
          handleGuessSubmit toUpperCase cols rnd now (s\<lparr>guessInput := a\<rparr>)
            = handleGuessSubmit toUpperCase cols rnd now (s\<lparr>guessInput := b\<rparr>))
     \<and> (\<forall>pre w post. (\<forall>c \<in> set pre. isWhiteSpace c) \<and> (\<forall>c \<in> set post. isWhiteSpace c) \<longrightarrow>
          trim (pre @ w @ post) = trim w)"
proof -
  have noop: "trim (guessInput s) = [] \<longrightarrow> handleGuessSubmit toUpperCase cols rnd now s = s"
  proof
    assume "trim (guessInput s) = []"
    then have "toUpperCase (trim (guessInput s)) = []"
      by (simp add: assms(2))
    with assms(1) show "handleGuessSubmit toUpperCase cols rnd now s = s"
      by (rule handleGuessSubmit_empty)
  qed
  have cmp: "toUpperCase (trim (guessInput s)) \<noteq> [] \<longrightarrow>
          handleGuessSubmit toUpperCase cols rnd now s =
            (if toUpperCase (trim (guessInput s)) = utf16 (currentWordToGuess s)
             then (emit RequestUpdate (fetchNextWord (setSessionMusicComponents now
                     ((toast (''Correct: '' @ currentWordToGuess s @ ''!'') (Some 2000) s)
                      \<lparr>nextComponentId := nextComponentId s + 1,
                        musicComponents := map_set (component_id (nextComponentId s))
                          (addedComponent cols rnd s) (musicComponents s)\<rparr>))))
                  \<lparr>guessInput := []\<rparr>
             else s\<lparr>guessInput := [],
                    effects := effects s @
                      [ToastShow ''Incorrect guess. Try again!'' (Some 2000),
                       InputSelect, InputAnimate]\<rparr>)"
    using assms(1) handleGuessSubmit_correct [of s toUpperCase cols rnd now]
      handleGuessSubmit_incorrect [of s toUpperCase cols rnd now]
    by (cases "toUpperCase (trim (guessInput s)) = utf16 (currentWordToGuess s)") simp_all
  have dep: "handleGuessSubmit toUpperCase cols rnd now (s\<lparr>guessInput := a\<rparr>)
            = handleGuessSubmit toUpperCase cols rnd now (s\<lparr>guessInput := b\<rparr>)"
    if "toUpperCase (trim a) \<noteq> []" "toUpperCase (trim a) = toUpperCase (trim b)" for a b
    by (rule handleGuessSubmit_depends_on_guess
        [where toUpperCase = toUpperCase, OF assms(1) that])
  have ws: "trim (pre @ w @ post) = trim w"
    if "\<forall>c \<in> set pre. isWhiteSpace c" "\<forall>c \<in> set post. isWhiteSpace c" for pre w post
    using that by (rule trim_surrounding)
  show ?thesis
    using noop cmp dep ws by blast
qed

theorem guess_is_trimmed_and_uppercased_witness:
  "\<not> gameWon playing_game \<and> toUpperCaseASCII [] = []
   \<and> trim (guessInput blank_guess_game) = []
   \<and> handleGuessSubmit toUpperCaseASCII COLORS 0 5000 blank_guess_game = blank_guess_game
   \<and> handleGuessSubmit toUpperCaseASCII COLORS 0 5000
        (playing_game\<lparr>guessInput := utf16 '' music ''\<rparr>)
       = handleGuessSubmit toUpperCaseASCII COLORS 0 5000
        (playing_game\<lparr>guessInput := utf16 ''MUSIC''\<rparr>)
   \<and> handleGuessSubmit toUpperCaseASCII COLORS 0 5000 wrong_guess_game
       = wrong_guess_game\<lparr>guessInput := [],
           effects := effects wrong_guess_game @
             [ToastShow ''Incorrect guess. Try again!'' (Some 2000),
              InputSelect, InputAnimate]\<rparr>"
proof -
  have u: "toUpperCaseASCII [] = []"
    by (simp add: toUpperCaseASCII_def)
  have h: "\<not> gameWon playing_game" "\<not> gameWon blank_guess_game" "\<not> gameWon wrong_guess_game"
    by (simp_all add: blank_guess_game_def wrong_guess_game_def playing_game_def initial_def)
  have b: "trim (guessInput blank_guess_game) = []"
    by (simp add: blank_guess_game_def eval_blank)
  have m: "toUpperCaseASCII (trim (utf16 '' music '')) \<noteq> []"
    "toUpperCaseASCII (trim (utf16 '' music '')) = toUpperCaseASCII (trim (utf16 ''MUSIC''))"
    by code_simp+
  have w0: "toUpperCaseASCII (trim (utf16 ''beat'')) \<noteq> []"
    "toUpperCaseASCII (trim (utf16 ''beat'')) \<noteq> utf16 ''MUSIC''"
    by code_simp+
  have w: "toUpperCaseASCII (trim (guessInput wrong_guess_game)) \<noteq> []"
    "toUpperCaseASCII (trim (guessInput wrong_guess_game))
       \<noteq> utf16 (currentWordToGuess wrong_guess_game)"
    by (simp_all add: wrong_guess_game_def playing_game_def initial_def w0)
  from guess_is_trimmed_and_uppercased
      [where toUpperCase = toUpperCaseASCII, OF h(2) u, of COLORS 0 5000] b
  have "handleGuessSubmit toUpperCaseASCII COLORS 0 5000 blank_guess_game = blank_guess_game"
    by blast
  moreover from guess_is_trimmed_and_uppercased
      [where toUpperCase = toUpperCaseASCII, OF h(1) u, of COLORS 0 5000] m
  have "handleGuessSubmit toUpperCaseASCII COLORS 0 5000
        (playing_game\<lparr>guessInput := utf16 '' music ''\<rparr>)
       = handleGuessSubmit toUpperCaseASCII COLORS 0 5000
        (playing_game\<lparr>guessInput := utf16 ''MUSIC''\<rparr>)"
    by blast
  moreover from guess_is_trimmed_and_uppercased
      [where toUpperCase = toUpperCaseASCII, OF h(3) u, of COLORS 0 5000] w
  have "handleGuessSubmit toUpperCaseASCII COLORS 0 5000 wrong_guess_game
       = wrong_guess_game\<lparr>guessInput := [],
           effects := effects wrong_guess_game @
             [ToastShow ''Incorrect guess. Try again!'' (Some 2000),
              InputSelect, InputAnimate]\<rparr>"
    by simp
  ultimately show ?thesis using h u b by simp
qed

text \<open>
  C10 as stated fails without the condition on the game: in a game that has been won,
  a submission whose input is empty after trimming is answered with the "Game over"
  toast.
\<close>

theorem blank_guess_in_won_game:
  "gameWon won_blank_game \<and> trim (guessInput won_blank_game) = []
   \<and> effects_since won_blank_game
        (handleGuessSubmit toUpperCaseASCII COLORS 0 5000 won_blank_game)
       = [ToastShow ''Game over! Reset to play again.'' (Some 3000)]"
proof -
  have g: "gameWon won_blank_game"
    by (simp add: won_blank_game_def playing_game_def initial_def)
  have "trim [0x20, 0x20] = []"
    by code_simp
  then have t: "trim (guessInput won_blank_game) = []"
    by (simp add: won_blank_game_def)
  from g t show ?thesis
    by (simp add: handleGuessSubmit_won effects_since_def)
qed


section \<open>Snapshots and filtered components\<close>


lemma distinct_WORD_LIST_SOURCE: "distinct WORD_LIST_SOURCE"
  by (simp add: WORD_LIST_SOURCE_def)






end
